theory Spec2Isabelle
  imports Complex_Main "HOL-Library.AList" "HOL-Library.Char_ord" "HOL-Library.List_Lexorder"
begin

section \<open>Python values\<close>

text \<open>
  The scripts \<^verbatim>\<open>train_krr_winrate.py\<close> and \<^verbatim>\<open>tune_krr_winrate.py\<close> move four kinds of
  values through dictionaries and data frames: strings, integers, floats and \<^verbatim>\<open>None\<close>.
  A float is a finite number, an infinity or NaN (\<^verbatim>\<open>np.nan\<close> is written by
  \<^verbatim>\<open>build_dataset\<close> itself). Finite floats are idealised as real numbers: rounding to the
  nearest double and overflow of a finite result are not part of this model.
  Strings are lists of 8-bit characters; the development covers ASCII text (for other
  text Python's \<^verbatim>\<open>lower\<close>, \<^verbatim>\<open>strip\<close>, \<^verbatim>\<open>\s\<close> and \<^verbatim>\<open>\d\<close> know more characters than the
  definitions below).
\<close>

datatype pyfloat = Finite real | PosInf | NegInf | NaN

datatype pyval = PStr string | PInt int | PFloat pyfloat | PNone

datatype error =
    FileNotFoundError string
  | ValueError string
  | KeyError string
  | TypeError
  | IndexError
  | OSError string

text \<open>Truth value of an object in a condition (\<^verbatim>\<open>if found:\<close>).\<close>

fun truthy :: "pyval \<Rightarrow> bool" where
  "truthy (PStr s) = (s \<noteq> [])"
| "truthy (PInt i) = (i \<noteq> 0)"
| "truthy (PFloat f) = (f \<noteq> Finite 0)"
| "truthy PNone = False"

text \<open>
  Elementwise \<^verbatim>\<open>==\<close> of a column against a value (\<^verbatim>\<open>games_df['game'] == mapped\<close>):
  NaN equals nothing, not even itself.
\<close>

fun py_eq :: "pyval \<Rightarrow> pyval \<Rightarrow> bool" where
  "py_eq (PStr a) (PStr b) = (a = b)"
| "py_eq (PInt a) (PInt b) = (a = b)"
| "py_eq (PInt a) (PFloat (Finite b)) = (real_of_int a = b)"
| "py_eq (PFloat (Finite a)) (PInt b) = (a = real_of_int b)"
| "py_eq (PFloat a) (PFloat b) = (a = b \<and> a \<noteq> NaN)"
| "py_eq _ _ = False"

text \<open>
  Library conversions whose full definition lies outside the two scripts are parameters:
  \<^verbatim>\<open>float(s)\<close> for an arbitrary string (\<open>None\<close> when it raises \<^verbatim>\<open>ValueError\<close>) and
  \<^verbatim>\<open>str(v)\<close> for a number.
\<close>

record pylib =
  float_str :: "string \<Rightarrow> pyfloat option"
  str_num :: "pyval \<Rightarrow> string"

section \<open>String operations\<close>

definition isspace :: "char \<Rightarrow> bool" where
  "isspace c = (c = CHR '' '' \<or> c = CHR 0x09 \<or> c = CHR 0x0A \<or> c = CHR 0x0B \<or> c = CHR 0x0C
     \<or> c = CHR 0x0D \<or> c = CHR 0x1C \<or> c = CHR 0x1D \<or> c = CHR 0x1E \<or> c = CHR 0x1F)"

definition isdigit :: "char \<Rightarrow> bool" where
  "isdigit c = (CHR ''0'' \<le> c \<and> c \<le> CHR ''9'')"

definition lstrip :: "string \<Rightarrow> string" where
  "lstrip s = dropWhile isspace s"

definition rstrip :: "string \<Rightarrow> string" where
  "rstrip s = rev (dropWhile isspace (rev s))"

definition strip :: "string \<Rightarrow> string" where
  "strip s = rstrip (lstrip s)"

definition lower_char :: "char \<Rightarrow> char" where
  "lower_char c =
     (case map_of (zip ''ABCDEFGHIJKLMNOPQRSTUVWXYZ'' ''abcdefghijklmnopqrstuvwxyz'') c of
        Some d \<Rightarrow> d
      | None \<Rightarrow> c)"

definition lower :: "string \<Rightarrow> string" where
  "lower s = map lower_char s"

text \<open>\<^verbatim>\<open>s.startswith(p)\<close> and \<^verbatim>\<open>s.endswith(p)\<close>.\<close>

definition startswith :: "string \<Rightarrow> string \<Rightarrow> bool" where
  "startswith s p = (take (length p) s = p)"

definition endswith :: "string \<Rightarrow> string \<Rightarrow> bool" where
  "endswith s p = (length p \<le> length s \<and> drop (length s - length p) s = p)"

text \<open>\<^verbatim>\<open>s.find(sub) >= 0\<close>: \<open>sub\<close> occurs in \<open>s\<close>.\<close>

fun find_ge0 :: "string \<Rightarrow> string \<Rightarrow> bool" where
  "find_ge0 [] sub = (sub = [])"
| "find_ge0 (c # cs) sub = (startswith (c # cs) sub \<or> find_ge0 cs sub)"

text \<open>\<^verbatim>\<open>s.split(d)\<close> for a one-character delimiter: always at least one piece.\<close>

fun split_on :: "char \<Rightarrow> string \<Rightarrow> string list" where
  "split_on d [] = [[]]"
| "split_on d (c # cs) =
     (if c = d then [] # split_on d cs
      else (case split_on d cs of
              [] \<Rightarrow> [[c]]
            | p # ps \<Rightarrow> (c # p) # ps))"

text \<open>\<^verbatim>\<open>f.rsplit('.', 1)\<close> for a name that contains a dot: the text before the last dot
  and the text after it.\<close>

definition rsplit_dot :: "string \<Rightarrow> string \<times> string" where
  "rsplit_dot f =
     (rev (drop 1 (dropWhile (\<lambda>c. c \<noteq> CHR ''.'') (rev f))),
      rev (takeWhile (\<lambda>c. c \<noteq> CHR ''.'') (rev f)))"

text \<open>\<^verbatim>\<open>int(s)\<close> for a string of decimal digits.\<close>

definition digit_val :: "char \<Rightarrow> nat" where
  "digit_val c = of_char c - 48"

definition int_of_digits :: "string \<Rightarrow> int" where
  "int_of_digits s = int (foldl (\<lambda>n c. 10 * n + digit_val c) 0 s)"

text \<open>
  \<^verbatim>\<open>float(s)\<close> for a string over the characters \<^verbatim>\<open>[0-9.]\<close>, the only strings the two
  regular expressions hand to it: the call raises \<^verbatim>\<open>ValueError\<close> (\<open>None\<close>) unless \<open>s\<close> has
  at least one digit and at most one dot. The value is the exact decimal.
\<close>

definition float_of_decimal :: "string \<Rightarrow> pyfloat option" where
  "float_of_decimal s =
     (let ip = takeWhile isdigit s; r = dropWhile isdigit s in
      if r = [] then (if ip = [] then None else Some (Finite (real_of_int (int_of_digits ip))))
      else if hd r = CHR ''.'' \<and> list_all isdigit (tl r) \<and> (ip \<noteq> [] \<or> tl r \<noteq> [])
        then Some (Finite (real_of_int (int_of_digits (ip @ tl r)) / 10 ^ length (tl r)))
      else None)"

section \<open>The regular expressions of the log parser\<close>

text \<open>
  The patterns of the scripts are sequences of four kinds of items: a literal, a literal
  compared without case (\<^verbatim>\<open>re.IGNORECASE\<close>), a skipped run \<^verbatim>\<open>c*\<close> of a character class
  and a captured run \<^verbatim>\<open>(c+)\<close>. Runs are matched greedily and are never shortened afterwards.
  For the patterns below this is what Python's backtracking matcher computes: in
  \<^verbatim>\<open>COMPLETED_RE\<close> and \<^verbatim>\<open>META_RE\<close> every run is followed by a literal whose first character
  is outside the run's class, or ends the pattern; in \<^verbatim>\<open>GAME_RE\<close> and \<^verbatim>\<open>VARIANT_RE\<close> the
  run \<^verbatim>\<open>\s*\<close> is followed by \<^verbatim>\<open>(.+)$\<close>, and shortening it could only help on a line that ends
  in white space, which the parser never passes (it strips every line first).
\<close>

datatype re_item =
    Lit string
  | LitI string
  | Skip "char \<Rightarrow> bool"
  | Group "char \<Rightarrow> bool"

text \<open>Match a pattern at the start of a string: the captured groups and the rest.\<close>

fun re_match :: "re_item list \<Rightarrow> string \<Rightarrow> (string list \<times> string) option" where
  "re_match [] s = Some ([], s)"
| "re_match (Lit l # p) s =
     (if startswith s l then re_match p (drop (length l) s) else None)"
| "re_match (LitI l # p) s =
     (if lower (take (length l) s) = lower l then re_match p (drop (length l) s) else None)"
| "re_match (Skip c # p) s = re_match p (dropWhile c s)"
| "re_match (Group c # p) s =
     (if takeWhile c s = [] then None
      else (case re_match p (dropWhile c s) of
              None \<Rightarrow> None
            | Some (gs, r) \<Rightarrow> Some (takeWhile c s # gs, r)))"

text \<open>\<^verbatim>\<open>pattern.search(s)\<close>: the groups of the leftmost match.\<close>

fun re_search :: "re_item list \<Rightarrow> string \<Rightarrow> string list option" where
  "re_search p [] = map_option fst (re_match p [])"
| "re_search p (c # cs) =
     (case re_match p (c # cs) of
        Some (gs, r) \<Rightarrow> Some gs
      | None \<Rightarrow> re_search p cs)"

definition not_newline :: "char \<Rightarrow> bool" where
  "not_newline c = (c \<noteq> CHR 0x0A)"

text \<open>\<^verbatim>\<open>^Game:\s*(.+)$\<close> and \<^verbatim>\<open>^Variant:\s*(.+)$\<close>, used with \<^verbatim>\<open>match\<close>: group 1 of the
  match. \<^verbatim>\<open>$\<close> accepts the end of the string or a final newline.\<close>

definition labelled_match :: "string \<Rightarrow> string \<Rightarrow> string option" where
  "labelled_match label line =
     (case re_match [LitI label, Skip isspace, Group not_newline] line of
        Some ([g], r) \<Rightarrow> (if r = [] \<or> r = [CHR 0x0A] then Some g else None)
      | _ \<Rightarrow> None)"

definition GAME_RE :: "string \<Rightarrow> string option" where
  "GAME_RE line = labelled_match ''Game:'' line"

definition VARIANT_RE :: "string \<Rightarrow> string option" where
  "VARIANT_RE line = labelled_match ''Variant:'' line"

text \<open>\<^verbatim>\<open>completed=(\d+)/(\d+),\s*wins=(\d+),\s*losses=(\d+),\s*draws=(\d+),\s*failures=(\d+),\s*avgMoves=([0-9.]+)\<close>,
  used with \<^verbatim>\<open>search\<close>: its seven groups.\<close>

definition isfloatchar :: "char \<Rightarrow> bool" where
  "isfloatchar c = (isdigit c \<or> c = CHR ''.'')"

definition COMPLETED_RE :: "string \<Rightarrow> string list option" where
  "COMPLETED_RE line =
     re_search
       [Lit ''completed='', Group isdigit, Lit ''/'', Group isdigit,
        Lit '','', Skip isspace, Lit ''wins='', Group isdigit,
        Lit '','', Skip isspace, Lit ''losses='', Group isdigit,
        Lit '','', Skip isspace, Lit ''draws='', Group isdigit,
        Lit '','', Skip isspace, Lit ''failures='', Group isdigit,
        Lit '','', Skip isspace, Lit ''avgMoves='', Group isfloatchar] line"

text \<open>\<^verbatim>\<open>moveTime=([0-9.]+)|gamesPerMatchup=(\d+)|maxMoves=(\d+)|cpus=(\d+)|mem=([^,\s]+)\<close>:
  the alternatives in their order.\<close>

definition META_RE :: "re_item list list" where
  "META_RE =
     [[Lit ''moveTime='', Group isfloatchar],
      [Lit ''gamesPerMatchup='', Group isdigit],
      [Lit ''maxMoves='', Group isdigit],
      [Lit ''cpus='', Group isdigit],
      [Lit ''mem='', Group (\<lambda>c. c \<noteq> CHR '','' \<and> \<not> isspace c)]]"

text \<open>The first alternative that matches at the start of the string: its index
  (group number minus one), its group and the rest of the string.\<close>

fun first_alt :: "nat \<Rightarrow> re_item list list \<Rightarrow> string \<Rightarrow> (nat \<times> string \<times> string) option" where
  "first_alt i [] s = None"
| "first_alt i (p # ps) s =
     (case re_match p s of
        Some ([g], r) \<Rightarrow> Some (i, g, r)
      | _ \<Rightarrow> first_alt (Suc i) ps s)"

text \<open>\<^verbatim>\<open>META_RE.finditer(txt)\<close>: the matches from left to right, none overlapping. Every
  alternative starts with a non-empty literal, so a match always consumes input; the
  guard on the length only makes this visible to the termination proof.\<close>

function finditer :: "re_item list list \<Rightarrow> string \<Rightarrow> (nat \<times> string) list" where
  "finditer alts s =
     (if s = [] then []
      else (case first_alt 0 alts s of
              Some (i, g, r) \<Rightarrow>
                (if length r < length s then (i, g) # finditer alts r else [(i, g)])
            | None \<Rightarrow> finditer alts (tl s)))"
  by pat_completeness auto
termination
  by (relation "measure (\<lambda>(alts, s). length s)") auto

section \<open>The log parser\<close>

text \<open>The dictionary \<^verbatim>\<open>data\<close> of \<^verbatim>\<open>parse_out_file\<close>; \<open>None\<close> is Python's \<^verbatim>\<open>None\<close>.\<close>

record out_data =
  game :: "string option"
  variant :: "string option"
  wins :: "int option"
  games :: "int option"
  avgMoves :: "pyfloat option"

definition empty_data :: out_data where
  "empty_data = \<lparr>game = None, variant = None, wins = None, games = None, avgMoves = None\<rparr>"

text \<open>One round of the loop over the lines of the file. The only statement that can
  raise is \<^verbatim>\<open>float(cm.group(7))\<close>.\<close>

definition parse_line :: "out_data \<Rightarrow> string \<Rightarrow> error + out_data" where
  "parse_line data raw =
     (let line = strip raw in
      if line = [] then Inr data
      else (case GAME_RE line of
        Some g \<Rightarrow> Inr (data\<lparr>game := Some (strip g)\<rparr>)
      | None \<Rightarrow> (case VARIANT_RE line of
          Some v \<Rightarrow> Inr (data\<lparr>variant := Some (strip v)\<rparr>)
        | None \<Rightarrow> (case COMPLETED_RE line of
            Some gs \<Rightarrow>
              (case float_of_decimal (gs ! 6) of
                 None \<Rightarrow> Inl (ValueError (gs ! 6))
               | Some avg_moves \<Rightarrow>
                   Inr (data\<lparr>wins := Some (int_of_digits (gs ! 2)),
                             games := Some (int_of_digits (gs ! 0)),
                             avgMoves := Some avg_moves\<rparr>))
          | None \<Rightarrow> Inr data))))"

fun parse_lines :: "out_data \<Rightarrow> string list \<Rightarrow> error + out_data" where
  "parse_lines data [] = Inr data"
| "parse_lines data (l # ls) =
     (case parse_line data l of
        Inl e \<Rightarrow> Inl e
      | Inr data' \<Rightarrow> parse_lines data' ls)"

text \<open>\<^verbatim>\<open>parse_out_file\<close>: the file is opened through the results directory (see
  \<open>results_dir\<close> below), which yields its lines or fails.\<close>

definition parse_out_file :: "(string \<Rightarrow> string list option) \<Rightarrow> string \<Rightarrow> error + out_data" where
  "parse_out_file open_file path =
     (case open_file path of
        None \<Rightarrow> Inl (OSError path)
      | Some ls \<Rightarrow> parse_lines empty_data ls)"

text \<open>An example log in which every pattern matches twice.\<close>

definition two_runs_log :: "string list" where
  "two_runs_log =
     [''Game: Hex'',
      ''Variant: UCB1|Random|Average|Robust'',
      ''completed=10/10, wins=4, losses=6, draws=0, failures=0, avgMoves=20.5'',
      ''Game: Chess'',
      ''Variant: UCB1|MAST'',
      ''completed=8/10, wins=6, losses=2, draws=0, failures=0, avgMoves=31.0'']"

section \<open>The name matcher\<close>

definition isalnum_lower :: "char \<Rightarrow> bool" where
  "isalnum_lower c = ((CHR ''a'' \<le> c \<and> c \<le> CHR ''z'') \<or> isdigit c)"

text \<open>\<^verbatim>\<open>normalize_name\<close>: the empty string for anything that is not a string (pandas
  loads an empty name cell as NaN), else the lower-case letters and digits of the name.\<close>

fun normalize_name :: "pyval \<Rightarrow> string" where
  "normalize_name (PStr s) = filter isalnum_lower (lower s)"
| "normalize_name v = []"

text \<open>
  The loaded property table \<^verbatim>\<open>games_df\<close>: one record per row, with the cell of the
  \<^verbatim>\<open>game\<close> column and the cells of the other columns in table order.
\<close>

record games_row =
  game_name :: pyval
  props :: "(string \<times> pyval) list"

text \<open>
  A Python dictionary is an association list with distinct keys in insertion order;
  \<open>AList.update\<close> is the assignment \<^verbatim>\<open>d[k] = v\<close> (a present key keeps its place) and
  \<open>AList.updates ks vs []\<close> is \<^verbatim>\<open>dict(zip(ks, vs))\<close>.
\<close>

definition norm_map :: "games_row list \<Rightarrow> (string \<times> pyval) list" where
  "norm_map games_df =
     AList.updates (map (\<lambda>r. normalize_name (game_name r)) games_df) (map game_name games_df) []"

definition dict_get :: "(string \<times> pyval) list \<Rightarrow> string \<Rightarrow> pyval" where
  "dict_get d k = (case map_of d k of Some v \<Rightarrow> v | None \<Rightarrow> PNone)"

text \<open>The test of the fuzzy scan, in the order the source writes it.\<close>

definition fuzzy_cond :: "string \<Rightarrow> string \<Rightarrow> bool" where
  "fuzzy_cond n nrm =
     (n = nrm \<or> startswith n nrm \<or> startswith nrm n \<or> find_ge0 n nrm \<or> find_ge0 nrm n)"

text \<open>The loop \<^verbatim>\<open>for n, g in norm_map.items(): if ...: found = g; break\<close>.\<close>

fun fuzzy_first :: "(string \<times> pyval) list \<Rightarrow> string \<Rightarrow> pyval option" where
  "fuzzy_first [] nrm = None"
| "fuzzy_first ((n, g) # rest) nrm = (if fuzzy_cond n nrm then Some g else fuzzy_first rest nrm)"

text \<open>Lines 106 to 119 of \<^verbatim>\<open>build_dataset\<close>; the result \<open>PNone\<close> stands for \<^verbatim>\<open>continue\<close>.\<close>

definition match_game_train :: "(string \<times> pyval) list \<Rightarrow> string \<Rightarrow> pyval" where
  "match_game_train norm_to_game nrm =
     (let mapped_game = dict_get norm_to_game nrm in
      if mapped_game = PNone then
        (case fuzzy_first norm_to_game nrm of
           Some found \<Rightarrow> (if truthy found then found else PNone)
         | None \<Rightarrow> PNone)
      else mapped_game)"

text \<open>Lines 149 to 155 of \<^verbatim>\<open>predict_winrate\<close>; the result \<open>PNone\<close> makes the caller raise.\<close>

definition match_game_predict :: "(string \<times> pyval) list \<Rightarrow> string \<Rightarrow> pyval" where
  "match_game_predict norm_map' nrm =
     (let mapped = dict_get norm_map' nrm in
      if mapped = PNone then
        (case fuzzy_first norm_map' nrm of
           Some g \<Rightarrow> g
         | None \<Rightarrow> PNone)
      else mapped)"

text \<open>\<^verbatim>\<open>games_df[games_df['game'] == mapped].iloc[0]\<close>: the first row whose name equals
  \<open>mapped\<close>; \<^verbatim>\<open>iloc[0]\<close> raises \<^verbatim>\<open>IndexError\<close> when there is none.\<close>

definition first_game_row :: "games_row list \<Rightarrow> pyval \<Rightarrow> games_row option" where
  "first_game_row games_df mapped = find (\<lambda>r. py_eq (game_name r) mapped) games_df"

text \<open>The items of such a row: the \<^verbatim>\<open>game\<close> cell, the other cells and the added column
  \<^verbatim>\<open>_norm\<close>.\<close>

definition row_items :: "games_row \<Rightarrow> (string \<times> pyval) list" where
  "row_items r =
     AList.update ''_norm'' (PStr (normalize_name (game_name r))) ((''game'', game_name r) # props r)"

section \<open>The dataset builder\<close>

text \<open>
  The results directory as \<^verbatim>\<open>build_dataset\<close> sees it: the names \<^verbatim>\<open>os.listdir\<close> returns, the
  size \<^verbatim>\<open>os.path.getsize\<close> reports for a name (\<open>None\<close> when it raises \<^verbatim>\<open>OSError\<close>) and the
  lines a file yields when it is opened and iterated (\<open>None\<close> when \<^verbatim>\<open>open\<close> raises).
\<close>

record results_dir =
  listdir :: "string list"
  getsize :: "string \<Rightarrow> nat option"
  read_lines :: "string \<Rightarrow> string list option"

text \<open>The loop that fills \<^verbatim>\<open>bases\<close>: a dictionary from base name to a dictionary from
  extension to file name.\<close>

definition add_file ::
  "string \<Rightarrow> (string \<times> (string \<times> string) list) list \<Rightarrow> (string \<times> (string \<times> string) list) list" where
  "add_file f bases =
     (if endswith f ''.out'' \<or> endswith f ''.err'' then
        (let base = fst (rsplit_dot f);
             parts = (case map_of bases base of Some p \<Rightarrow> p | None \<Rightarrow> [])
         in AList.update base (AList.update (snd (rsplit_dot f)) f parts) bases)
      else bases)"

definition bases_of :: "string list \<Rightarrow> (string \<times> (string \<times> string) list) list" where
  "bases_of files = fold add_file files []"

text \<open>The optional run metadata and the second pass over the file that fills it. The
  pass sits in \<^verbatim>\<open>try ... except Exception: pass\<close>: a failing \<^verbatim>\<open>open\<close> or \<^verbatim>\<open>float\<close> ends it
  and keeps what was set before.\<close>

record meta =
  moveTime :: pyval
  gamesPerMatchup :: pyval
  maxMoves :: pyval
  cpus :: pyval
  mem :: pyval

definition empty_meta :: meta where
  "empty_meta = \<lparr>moveTime = PNone, gamesPerMatchup = PNone, maxMoves = PNone, cpus = PNone, mem = PNone\<rparr>"

fun meta_loop :: "meta \<Rightarrow> (nat \<times> string) list \<Rightarrow> meta" where
  "meta_loop m [] = m"
| "meta_loop m ((i, g) # ms) =
     (if i = 0 then
        (case float_of_decimal g of
           None \<Rightarrow> m
         | Some x \<Rightarrow> meta_loop (m\<lparr>moveTime := PFloat x\<rparr>) ms)
      else if i = 1 then meta_loop (m\<lparr>gamesPerMatchup := PInt (int_of_digits g)\<rparr>) ms
      else if i = 2 then meta_loop (m\<lparr>maxMoves := PInt (int_of_digits g)\<rparr>) ms
      else if i = 3 then meta_loop (m\<lparr>cpus := PInt (int_of_digits g)\<rparr>) ms
      else meta_loop (m\<lparr>mem := PStr g\<rparr>) ms)"

definition parse_meta :: "results_dir \<Rightarrow> string \<Rightarrow> meta" where
  "parse_meta rd out_path =
     (case read_lines rd out_path of
        None \<Rightarrow> empty_meta
      | Some ls \<Rightarrow> meta_loop empty_meta (finditer META_RE (concat ls)))"

text \<open>The variant string split on \<^verbatim>\<open>|\<close>, every piece stripped, padded with empty strings
  to four pieces at least (\<^verbatim>\<open>parts\<close> after the \<^verbatim>\<open>while\<close> loop, in both scripts).\<close>

definition variant_parts :: "string \<Rightarrow> string list" where
  "variant_parts v =
     (let parts = map strip (split_on CHR ''|'' v) in parts @ replicate (4 - length parts) [])"

definition of_opt_str :: "string option \<Rightarrow> pyval" where
  "of_opt_str x = (case x of None \<Rightarrow> PNone | Some s \<Rightarrow> PStr s)"

definition of_opt_float :: "pyfloat option \<Rightarrow> pyval" where
  "of_opt_float x = (case x of None \<Rightarrow> PNone | Some f \<Rightarrow> PFloat f)"

text \<open>The dictionary \<^verbatim>\<open>row\<close> of one job (lines 142 to 172): \<^verbatim>\<open>sel, sim, back, final\<close> are
  \<^verbatim>\<open>parts[:4]\<close>, and the property cells are attached under the prefix \<^verbatim>\<open>game_\<close>.\<close>

definition make_row ::
  "string \<Rightarrow> pyval \<Rightarrow> string option \<Rightarrow> int \<Rightarrow> int \<Rightarrow> pyfloat option \<Rightarrow> meta \<Rightarrow> games_row
     \<Rightarrow> (string \<times> pyval) list" where
  "make_row base mapped_game v w n avg m prow =
     (let parts = take 4 (variant_parts (case v of None \<Rightarrow> [] | Some s \<Rightarrow> s)) in
      fold (\<lambda>(col, val) row.
              if col = ''game'' \<or> col = ''_norm'' then row
              else AList.update (''game_'' @ col) val row)
        (row_items prow)
        [(''job_base'', PStr base),
         (''game'', mapped_game),
         (''variant'', of_opt_str v),
         (''variant_select'', PStr (parts ! 0)),
         (''variant_simulation'', PStr (parts ! 1)),
         (''variant_backprop'', PStr (parts ! 2)),
         (''variant_finalmove'', PStr (parts ! 3)),
         (''wins'', PInt w),
         (''games'', PInt n),
         (''winrate'', PFloat (if n > 0 then Finite (real_of_int w / real_of_int n) else NaN)),
         (''avgMoves'', of_opt_float avg),
         (''moveTime'', moveTime m),
         (''gamesPerMatchup'', gamesPerMatchup m),
         (''maxMoves'', maxMoves m),
         (''cpus'', cpus m),
         (''mem'', mem m)])"

text \<open>One round of the loop over \<^verbatim>\<open>sorted(bases.items())\<close>: \<open>Inr None\<close> is \<^verbatim>\<open>continue\<close>,
  \<open>Inr (Some row)\<close> is \<^verbatim>\<open>rows.append(row)\<close>, \<open>Inl e\<close> is an exception leaving the function.\<close>

definition process_job ::
  "results_dir \<Rightarrow> games_row list \<Rightarrow> string \<times> (string \<times> string) list
     \<Rightarrow> error + (string \<times> pyval) list option" where
  "process_job rd games_df bp =
     (let base = fst bp; err_file = map_of (snd bp) ''err''; out_file = map_of (snd bp) ''out'' in
      if (case err_file of
            None \<Rightarrow> False
          | Some e \<Rightarrow> e \<noteq> [] \<and> (case getsize rd e of None \<Rightarrow> False | Some sz \<Rightarrow> sz > 0))
      then Inr None
      else (case out_file of
        None \<Rightarrow> Inr None
      | Some out \<Rightarrow>
          if out = [] then Inr None
          else (case parse_out_file (read_lines rd) out of
            Inl e \<Rightarrow> Inl e
          | Inr parsed \<Rightarrow>
              (case (game parsed, wins parsed, games parsed) of
                 (Some g, Some w, Some n) \<Rightarrow>
                   if g = [] then Inr None
                   else (let mapped_game =
                               match_game_train (norm_map games_df) (normalize_name (PStr g)) in
                         if mapped_game = PNone then Inr None
                         else (case first_game_row games_df mapped_game of
                                 None \<Rightarrow> Inl IndexError
                               | Some prow \<Rightarrow>
                                   Inr (Some (make_row base mapped_game (variant parsed) w n
                                                (avgMoves parsed) (parse_meta rd out) prow))))
               | _ \<Rightarrow> Inr None))))"

fun collect_rows ::
  "results_dir \<Rightarrow> games_row list \<Rightarrow> (string \<times> (string \<times> string) list) list
     \<Rightarrow> error + (string \<times> pyval) list list" where
  "collect_rows rd games_df [] = Inr []"
| "collect_rows rd games_df (bp # rest) =
     (case process_job rd games_df bp of
        Inl e \<Rightarrow> Inl e
      | Inr r \<Rightarrow>
          (case collect_rows rd games_df rest of
             Inl e \<Rightarrow> Inl e
           | Inr rows \<Rightarrow> Inr (case r of None \<Rightarrow> rows | Some row \<Rightarrow> row # rows)))"

text \<open>
  The rows \<^verbatim>\<open>build_dataset\<close> collects, in the order of the sorted base names. The
  property table is \<open>None\<close> when \<^verbatim>\<open>pd.read_csv\<close> finds no file. The bases are distinct
  keys, so sorting the items compares base names only.
\<close>

definition GAME_PROPS :: string where
  "GAME_PROPS = ''game_properties.csv''"

definition dataset_rows :: "results_dir \<Rightarrow> games_row list option \<Rightarrow> error + (string \<times> pyval) list list" where
  "dataset_rows rd game_props =
     (case game_props of
        None \<Rightarrow> Inl (FileNotFoundError GAME_PROPS)
      | Some games_df \<Rightarrow> collect_rows rd games_df (sort_key fst (bases_of (listdir rd))))"

text \<open>
  A data frame: its column names in order and its rows; a cell a row lacks reads as NaN.
  \<^verbatim>\<open>pd.DataFrame(rows)\<close> takes the columns from the keys of the rows in the order of
  their first appearance.
\<close>

record dataframe =
  columns :: "string list"
  records :: "(string \<times> pyval) list list"

definition unique :: "'a list \<Rightarrow> 'a list" where
  "unique xs = rev (remdups (rev xs))"

definition DataFrame :: "(string \<times> pyval) list list \<Rightarrow> dataframe" where
  "DataFrame rows = \<lparr>columns = unique (concat (map (map fst) rows)), records = rows\<rparr>"

definition cell :: "(string \<times> pyval) list \<Rightarrow> string \<Rightarrow> pyval" where
  "cell r c = (case map_of r c of Some v \<Rightarrow> v | None \<Rightarrow> PFloat NaN)"

definition df_col :: "dataframe \<Rightarrow> string \<Rightarrow> pyval list" where
  "df_col df c = map (\<lambda>r. cell r c) (records df)"

definition build_dataset :: "results_dir \<Rightarrow> games_row list option \<Rightarrow> error + dataframe" where
  "build_dataset rd game_props =
     (case dataset_rows rd game_props of
        Inl e \<Rightarrow> Inl e
      | Inr rows \<Rightarrow> Inr (DataFrame rows))"

section \<open>The feature encoders\<close>

text \<open>\<^verbatim>\<open>astype(float)\<close> on one cell (\<open>None\<close> when it raises) and \<^verbatim>\<open>fillna(0)\<close>.\<close>

definition astype_float :: "pylib \<Rightarrow> pyval \<Rightarrow> pyfloat option" where
  "astype_float L v =
     (case v of
        PStr s \<Rightarrow> float_str L s
      | PInt i \<Rightarrow> Some (Finite (real_of_int i))
      | PFloat f \<Rightarrow> Some f
      | PNone \<Rightarrow> Some NaN)"

definition fillna0 :: "pyfloat \<Rightarrow> pyfloat" where
  "fillna0 f = (if f = NaN then Finite 0 else f)"

definition num_cols_of :: "string list \<Rightarrow> string list" where
  "num_cols_of cols = filter (\<lambda>c. startswith c ''game_'') cols"

text \<open>\<^verbatim>\<open>df[num_cols].astype(float).fillna(0).values\<close>, row by row; \<open>None\<close> when a cell
  does not convert.\<close>

definition X_num_of :: "pylib \<Rightarrow> dataframe \<Rightarrow> string list \<Rightarrow> pyfloat list list option" where
  "X_num_of L df num_cols =
     those (map (\<lambda>r. those (map (\<lambda>c. map_option fillna0 (astype_float L (cell r c))) num_cols))
              (records df))"

text \<open>\<^verbatim>\<open>df['winrate'].values.astype(float)\<close>.\<close>

definition y_of :: "pylib \<Rightarrow> dataframe \<Rightarrow> error + pyfloat list" where
  "y_of L df =
     (if ''winrate'' \<notin> set (columns df) then Inl (KeyError ''winrate'')
      else (case those (map (astype_float L) (df_col df ''winrate'')) of
              None \<Rightarrow> Inl (ValueError ''winrate'')
            | Some y \<Rightarrow> Inr y))"

text \<open>
  \<^verbatim>\<open>str.split('\s*\|\s*')\<close> of the trainer: the pattern is a regular expression, so the
  string is cut at every \<^verbatim>\<open>|\<close> and the white space on either side of a cut belongs to the
  separator; the outer ends of the first and the last token stay as they are.
\<close>

definition split_pipe_ws :: "string \<Rightarrow> string list" where
  "split_pipe_ws s =
     (case split_on CHR ''|'' s of
        [] \<Rightarrow> []
      | [p] \<Rightarrow> [p]
      | p # q # qs \<Rightarrow> rstrip p # map strip (butlast (q # qs)) @ [lstrip (last (q # qs))])"

text \<open>The tokens of one \<^verbatim>\<open>variant\<close> cell after \<^verbatim>\<open>fillna('')\<close>; a cell that is neither
  missing nor a string makes the trainer's encoder raise (\<open>None\<close>).\<close>

definition variant_tokens :: "pyval \<Rightarrow> string list option" where
  "variant_tokens v =
     (case v of
        PStr s \<Rightarrow> Some (split_pipe_ws s)
      | PNone \<Rightarrow> Some (split_pipe_ws [])
      | PFloat f \<Rightarrow> (if f = NaN then Some (split_pipe_ws []) else None)
      | PInt i \<Rightarrow> None)"

definition onehot :: "bool \<Rightarrow> pyfloat" where
  "onehot b = (if b then Finite 1 else Finite 0)"

text \<open>\<^verbatim>\<open>prepare_features\<close> of \<^verbatim>\<open>train_krr_winrate.py\<close>: \<open>(X, y, feature_names)\<close>.\<close>

definition prepare_features ::
  "pylib \<Rightarrow> dataframe \<Rightarrow> error + (pyfloat list list \<times> pyfloat list \<times> string list)" where
  "prepare_features L df =
     (let num_cols = num_cols_of (columns df) in
      case X_num_of L df num_cols of
        None \<Rightarrow> Inl (ValueError ''astype'')
      | Some X_num \<Rightarrow>
          if ''variant'' \<notin> set (columns df) then Inl (KeyError ''variant'')
          else (case those (map variant_tokens (df_col df ''variant'')) of
            None \<Rightarrow> Inl TypeError
          | Some tokens \<Rightarrow>
              (let token_list = sort (remdups (filter (\<lambda>tok. tok \<noteq> []) (concat tokens)));
                   X_tokens = map (\<lambda>toks. map (\<lambda>tok. onehot (tok \<in> set toks)) token_list) tokens;
                   X = map2 (@) X_num X_tokens
               in case y_of L df of
                    Inl e \<Rightarrow> Inl e
                  | Inr y \<Rightarrow> Inr (X, y, num_cols @ token_list))))"

text \<open>\<^verbatim>\<open>build_feature_matrix\<close> of \<^verbatim>\<open>tune_krr_winrate.py\<close>.\<close>

definition comp_cols :: "string list" where
  "comp_cols = [''variant_select'', ''variant_simulation'', ''variant_backprop'', ''variant_finalmove'']"

text \<open>\<^verbatim>\<open>df[comp].fillna('').astype(str)\<close> on one cell.\<close>

definition astype_str :: "pylib \<Rightarrow> pyval \<Rightarrow> string" where
  "astype_str L v =
     (case v of
        PStr s \<Rightarrow> s
      | PNone \<Rightarrow> []
      | PFloat f \<Rightarrow> (if f = NaN then [] else str_num L v)
      | PInt i \<Rightarrow> str_num L v)"

definition comp_tokens :: "pylib \<Rightarrow> dataframe \<Rightarrow> string \<Rightarrow> string list" where
  "comp_tokens L df comp' = map (astype_str L) (df_col df comp')"

text \<open>\<^verbatim>\<open>sorted([t for t in tokens.unique() if t])\<close>.\<close>

definition comp_unique :: "pylib \<Rightarrow> dataframe \<Rightarrow> string \<Rightarrow> string list" where
  "comp_unique L df comp' = sort (filter (\<lambda>t. t \<noteq> []) (unique (comp_tokens L df comp')))"

definition comp_names :: "pylib \<Rightarrow> dataframe \<Rightarrow> string \<Rightarrow> string list" where
  "comp_names L df comp' = map (\<lambda>t. comp' @ ''='' @ t) (comp_unique L df comp')"

text \<open>The matrix \<^verbatim>\<open>mat\<close> of one component: one row per record.\<close>

definition comp_matrix :: "pylib \<Rightarrow> dataframe \<Rightarrow> string \<Rightarrow> pyfloat list list" where
  "comp_matrix L df comp' =
     map (\<lambda>v. map (\<lambda>u. onehot (v \<noteq> [] \<and> v = u)) (comp_unique L df comp')) (comp_tokens L df comp')"

definition build_feature_matrix ::
  "pylib \<Rightarrow> dataframe \<Rightarrow> error + (pyfloat list list \<times> pyfloat list \<times> string list \<times> dataframe)" where
  "build_feature_matrix L df =
     (let num_cols = num_cols_of (columns df) in
      case X_num_of L df num_cols of
        None \<Rightarrow> Inl (ValueError ''astype'')
      | Some X_num \<Rightarrow>
          (let present = filter (\<lambda>comp'. comp' \<in> set (columns df)) comp_cols;
               token_list_all = concat (map (comp_names L df) present);
               token_matrices = map (comp_matrix L df) present;
               X_tokens = map (\<lambda>i. concat (map (\<lambda>mat. mat ! i) token_matrices))
                              [0 ..< length (records df)];
               X = map2 (@) X_num X_tokens
           in case y_of L df of
                Inl e \<Rightarrow> Inl e
              | Inr y \<Rightarrow> Inr (X, y, num_cols @ token_list_all, df)))"

text \<open>
  The schema in the words of the specification, for comparison with what the encoders
  compute: all property-prefixed columns first, then for each of the four variant
  components the names \<^verbatim>\<open><component>=<value>\<close>, the values ranging over the sorted set
  of the distinct non-empty values of that component's column. \<open>pooled_tokens\<close> are
  the tokens of all variant strings of a data frame taken together.
\<close>

definition spec_vocabulary :: "pylib \<Rightarrow> dataframe \<Rightarrow> string \<Rightarrow> string list" where
  "spec_vocabulary L df c = sorted_list_of_set (set (filter (\<lambda>t. t \<noteq> []) (comp_tokens L df c)))"

definition spec_feature_names :: "pylib \<Rightarrow> dataframe \<Rightarrow> string list" where
  "spec_feature_names L df =
     num_cols_of (columns df)
     @ concat (map (\<lambda>c. map (\<lambda>t. c @ ''='' @ t) (spec_vocabulary L df c)) comp_cols)"

definition pooled_tokens :: "dataframe \<Rightarrow> string list" where
  "pooled_tokens df =
     concat (map (\<lambda>v. case variant_tokens v of Some toks \<Rightarrow> toks | None \<Rightarrow> [])
               (df_col df ''variant''))"

section \<open>The prediction entry point\<close>

text \<open>
  What \<^verbatim>\<open>predict_winrate\<close> finds on disk: the persisted pipeline (a function from a
  feature vector to the raw prediction), the persisted list of feature names and the
  property table; each is \<open>None\<close> when its file is absent. A file that is present is taken
  to load: the pipeline accepts the vector and the schema is a list of strings.
\<close>

record store =
  model_file :: "(pyfloat list \<Rightarrow> pyfloat) option"
  features_file :: "string list option"
  game_props_file :: "games_row list option"

text \<open>\<^verbatim>\<open>float(val)\<close> inside \<^verbatim>\<open>try ... except Exception\<close>: 0.0 when it raises.\<close>

definition float_or_zero :: "pylib \<Rightarrow> pyval \<Rightarrow> pyfloat" where
  "float_or_zero L v =
     (case v of
        PStr s \<Rightarrow> (case float_str L s of Some f \<Rightarrow> f | None \<Rightarrow> Finite 0)
      | PInt i \<Rightarrow> Finite (real_of_int i)
      | PFloat f \<Rightarrow> f
      | PNone \<Rightarrow> Finite 0)"

definition num_part :: "pylib \<Rightarrow> games_row \<Rightarrow> string list \<Rightarrow> pyfloat list" where
  "num_part L prow feature_names =
     map (\<lambda>col. float_or_zero L
                  (case map_of (row_items prow) (drop (length ''game_'') col) of
                     Some val \<Rightarrow> val
                   | None \<Rightarrow> PInt 0))
       (filter (\<lambda>col. startswith col ''game_'') feature_names)"

text \<open>Lines 171 to 191: one entry per feature name that does not start with
  \<^verbatim>\<open>game_\<close>.\<close>

definition token_names_of :: "string list \<Rightarrow> string list" where
  "token_names_of feature_names = filter (\<lambda>fn. \<not> startswith fn ''game_'') feature_names"

definition variant_by_comp :: "string list \<Rightarrow> (string \<times> string) list" where
  "variant_by_comp parts =
     [(''variant_select'', parts ! 0),
      (''variant_simulation'', parts ! 1),
      (''variant_backprop'', parts ! 2),
      (''variant_finalmove'', parts ! 3)]"

definition token_feature :: "string list \<Rightarrow> string \<Rightarrow> pyfloat" where
  "token_feature parts feature =
     (if CHR ''='' \<in> set feature then
        (let comp' = takeWhile (\<lambda>c. c \<noteq> CHR ''='') feature;
             val = drop 1 (dropWhile (\<lambda>c. c \<noteq> CHR ''='') feature)
         in onehot ((case map_of (variant_by_comp parts) comp' of Some v \<Rightarrow> v | None \<Rightarrow> []) = val))
      else onehot (feature \<in> set (filter (\<lambda>p. p \<noteq> []) parts)))"

definition token_part :: "string list \<Rightarrow> string \<Rightarrow> pyfloat list" where
  "token_part feature_names variant' =
     map (token_feature (variant_parts variant')) (token_names_of feature_names)"

text \<open>\<^verbatim>\<open>np.nan_to_num(x, nan=0.0, posinf=0.0, neginf=0.0)\<close> on one entry, and
  \<^verbatim>\<open>np.clip(pred, 0.0, 1.0)\<close>, which hands a NaN through.\<close>

definition nan_to_num :: "pyfloat \<Rightarrow> pyfloat" where
  "nan_to_num f = (case f of Finite r \<Rightarrow> Finite r | _ \<Rightarrow> Finite 0)"

definition np_clip :: "pyfloat \<Rightarrow> pyfloat" where
  "np_clip f =
     (case f of
        Finite r \<Rightarrow> Finite (min (max r 0) 1)
      | PosInf \<Rightarrow> Finite 1
      | NegInf \<Rightarrow> Finite 0
      | NaN \<Rightarrow> NaN)"

definition not_trained :: error where
  "not_trained = FileNotFoundError ''Model or feature names not found. Run tuner first.''"

definition game_not_found :: "string \<Rightarrow> error" where
  "game_not_found game_name' =
     ValueError (''Game '' @ [CHR 0x22] @ game_name' @ [CHR 0x22] @ '' not found in game properties'')"

definition predict_winrate :: "pylib \<Rightarrow> store \<Rightarrow> string \<Rightarrow> string \<Rightarrow> error + pyfloat" where
  "predict_winrate L st game_name' variant' =
     (case (model_file st, features_file st) of
        (Some model, Some feature_names) \<Rightarrow>
          (case game_props_file st of
             None \<Rightarrow> Inl (FileNotFoundError GAME_PROPS)
           | Some games_df \<Rightarrow>
               (let mapped = match_game_predict (norm_map games_df) (normalize_name (PStr game_name')) in
                if mapped = PNone then Inl (game_not_found game_name')
                else (case first_game_row games_df mapped of
                        None \<Rightarrow> Inl IndexError
                      | Some prow \<Rightarrow>
                          Inr (np_clip (model (map nan_to_num
                                 (num_part L prow feature_names @ token_part feature_names variant')))))))
      | _ \<Rightarrow> Inl not_trained)"

section \<open>Example inputs\<close>

text \<open>
  A property table with one game; a results directory whose only job completed no game;
  and the end-to-end example of the specification: job A with 55 wins in 100 completed
  games and an empty error file, job B with a non-empty error file. The rows are the
  ones \<^verbatim>\<open>build_dataset\<close> produces for them.
\<close>

definition hex_table :: "games_row list" where
  "hex_table = [\<lparr>game_name = PStr ''Hex'', props = [(''size'', PInt 11)]\<rparr>]"

definition zero_games_dir :: results_dir where
  "zero_games_dir =
     \<lparr>listdir = [''job1.out'', ''job1.err''],
      getsize = (\<lambda>f. Some 0),
      read_lines = (\<lambda>f. if f = ''job1.out''
                         then Some [''Game: Hex'', ''Variant: UCB1'',
                                    ''completed=0/10, wins=0, losses=0, draws=0, failures=10, avgMoves=0.0'']
                         else None)\<rparr>"

definition two_jobs_dir :: results_dir where
  "two_jobs_dir =
     \<lparr>listdir = [''jobB.err'', ''jobA.out'', ''jobB.out'', ''jobA.err''],
      getsize = (\<lambda>f. if f = ''jobB.err'' then Some 17 else Some 0),
      read_lines = (\<lambda>f. if f = ''jobA.out'' \<or> f = ''jobB.out''
                         then Some [''Game: Hex'', ''Variant: UCB1|Random|Average|Robust'',
                                    ''completed=100/100, wins=55, losses=43, draws=2, failures=0, avgMoves=24.5'']
                         else None)\<rparr>"

definition zero_games_row :: "(string \<times> pyval) list" where
  "zero_games_row =
     [(''job_base'', PStr ''job1''), (''game'', PStr ''Hex''), (''variant'', PStr ''UCB1''),
      (''variant_select'', PStr ''UCB1''), (''variant_simulation'', PStr []),
      (''variant_backprop'', PStr []), (''variant_finalmove'', PStr []),
      (''wins'', PInt 0), (''games'', PInt 0), (''winrate'', PFloat NaN),
      (''avgMoves'', PFloat (Finite 0)), (''moveTime'', PNone), (''gamesPerMatchup'', PNone),
      (''maxMoves'', PNone), (''cpus'', PNone), (''mem'', PNone), (''game_size'', PInt 11)]"

definition jobA_row :: "(string \<times> pyval) list" where
  "jobA_row =
     [(''job_base'', PStr ''jobA''), (''game'', PStr ''Hex''),
      (''variant'', PStr ''UCB1|Random|Average|Robust''),
      (''variant_select'', PStr ''UCB1''), (''variant_simulation'', PStr ''Random''),
      (''variant_backprop'', PStr ''Average''), (''variant_finalmove'', PStr ''Robust''),
      (''wins'', PInt 55), (''games'', PInt 100), (''winrate'', PFloat (Finite (55 / 100))),
      (''avgMoves'', PFloat (Finite (245 / 10))), (''moveTime'', PNone), (''gamesPerMatchup'', PNone),
      (''maxMoves'', PNone), (''cpus'', PNone), (''mem'', PNone), (''game_size'', PInt 11)]"

text \<open>The dataset of the end-to-end example, and a library whose \<^verbatim>\<open>float\<close> rejects
  every string.\<close>

definition hex_dataset :: dataframe where
  "hex_dataset = DataFrame [jobA_row]"

definition no_lib :: pylib where
  "no_lib = \<lparr>float_str = (\<lambda>s. None), str_num = (\<lambda>v. [])\<rparr>"


section \<open>Facts about the string operations\<close>



lemma game_prefix_key: "\<not> startswith k ''game_'' \<Longrightarrow> ''game_'' @ col \<noteq> k"
  by (auto simp: startswith_def)

lemma fold_game_cols_other:
  assumes "\<not> startswith k ''game_''"
  shows "map_of (fold (\<lambda>(col, val) row.
              if col = ''game'' \<or> col = ''_norm'' then row
              else AList.update (''game_'' @ col) val row) items row0) k = map_of row0 k"
  using assms
proof (induction items arbitrary: row0)
  case Nil
  show ?case by simp
next
  case (Cons it items)
  obtain col val where it: "it = (col, val)" by (cases it)
  have "''game_'' @ col \<noteq> k" using Cons.prems by (rule game_prefix_key)
  then show ?case using Cons it by (simp add: update_conv')
qed




lemmas str_defs = isspace_def isdigit_def lstrip_def rstrip_def strip_def lower_char_def lower_def
  startswith_def endswith_def rsplit_dot_def digit_val_def int_of_digits_def float_of_decimal_def
  isalnum_lower_def




lemma make_row_fixed:
  assumes "\<not> startswith k ''game_''"
  shows "map_of (make_row base g vo w n avg m prow) k =
     map_of
        [(''job_base'', PStr base),
         (''game'', g),
         (''variant'', of_opt_str vo),
         (''variant_select'', PStr (take 4 (variant_parts (case vo of None \<Rightarrow> [] | Some s \<Rightarrow> s)) ! 0)),
         (''variant_simulation'', PStr (take 4 (variant_parts (case vo of None \<Rightarrow> [] | Some s \<Rightarrow> s)) ! 1)),
         (''variant_backprop'', PStr (take 4 (variant_parts (case vo of None \<Rightarrow> [] | Some s \<Rightarrow> s)) ! 2)),
         (''variant_finalmove'', PStr (take 4 (variant_parts (case vo of None \<Rightarrow> [] | Some s \<Rightarrow> s)) ! 3)),
         (''wins'', PInt w),
         (''games'', PInt n),
         (''winrate'', PFloat (if n > 0 then Finite (real_of_int w / real_of_int n) else NaN)),
         (''avgMoves'', of_opt_float avg),
         (''moveTime'', moveTime m),
         (''gamesPerMatchup'', gamesPerMatchup m),
         (''maxMoves'', maxMoves m),
         (''cpus'', cpus m),
         (''mem'', mem m)] k"
  unfolding make_row_def Let_def by (rule fold_game_cols_other[OF assms])



section \<open>The verified claims\<close>



subsection \<open>Facts about the name matcher\<close>

lemma set_update_subset: "set (AList.update k v al) \<subseteq> insert (k, v) (set al)"
  by (induction al) auto

lemma set_updates_subset: "set (AList.updates ks vs al) \<subseteq> set (zip ks vs) \<union> set al"
proof (induction ks arbitrary: vs al)
  case Nil
  show ?case by simp
next
  case (Cons k ks)
  show ?case
  proof (cases vs)
    case Nil
    then show ?thesis by simp
  next
    case (Cons v vs')
    have "set (AList.updates ks vs' (AList.update k v al)) \<subseteq> set (zip ks vs') \<union> set (AList.update k v al)"
      by (rule Cons.IH)
    then show ?thesis using set_update_subset[of k v al] Cons by auto
  qed
qed

lemma updates_nonempty: "al \<noteq> [] \<Longrightarrow> AList.updates ks vs al \<noteq> []"
proof (induction ks arbitrary: vs al)
  case Nil
  then show ?case by simp
next
  case (Cons k ks)
  then show ?case by (cases vs) auto
qed

lemma norm_map_nonempty:
  assumes "games_df \<noteq> []"
  shows "norm_map games_df \<noteq> []"
proof (cases games_df)
  case Nil
  then show ?thesis using assms by simp
next
  case (Cons r rs)
  have "AList.updates (map (\<lambda>r. normalize_name (game_name r)) rs) (map game_name rs)
          [(normalize_name (game_name r), game_name r)] \<noteq> []"
    by (rule updates_nonempty) simp
  then show ?thesis using Cons by (simp add: norm_map_def)
qed

lemma norm_map_entries:
  assumes "(n, g) \<in> set (norm_map games_df)"
  shows "\<exists>r\<in>set games_df. g = game_name r \<and> n = normalize_name (game_name r)"
proof -
  have "(n, g) \<in> set (zip (map (\<lambda>r. normalize_name (game_name r)) games_df) (map game_name games_df))"
    using assms set_updates_subset[of "map (\<lambda>r. normalize_name (game_name r)) games_df" "map game_name games_df" "[]"]
    unfolding norm_map_def by auto
  then show ?thesis by (auto simp: zip_map_map zip_same)
qed

lemma fuzzy_first_empty: "m \<noteq> [] \<Longrightarrow> fuzzy_first m [] = Some (snd (hd m))"
  by (cases m) (auto simp: fuzzy_cond_def startswith_def)

lemma normalize_nonempty_str: "normalize_name g \<noteq> [] \<Longrightarrow> \<exists>s. g = PStr s \<and> s \<noteq> []"
  by (cases g) (auto simp: lower_def)

lemma first_game_row_str:
  assumes "r \<in> set games_df" and "game_name r = PStr s"
  shows "\<exists>prow. first_game_row games_df (PStr s) = Some prow"
proof -
  have "\<exists>x. x \<in> set games_df \<and> py_eq (game_name x) (PStr s)" using assms by force
  then have "find (\<lambda>r. py_eq (game_name r) (PStr s)) games_df \<noteq> None"
    by (simp only: find_None_iff not_not)
  then show ?thesis unfolding first_game_row_def by auto
qed

text \<open>
  Claim C7. For every query name and every mapping from normalized names to canonical
  names: when the normalized query is a key of the mapping (and the name stored under it
  is not \<^verbatim>\<open>None\<close>, which no loaded table contains), both the dataset builder and the
  prediction entry point resolve the query to the name stored under that key. Nothing is
  assumed about the other entries, so fuzzy candidates that come earlier in the mapping
  do not matter.
\<close>

theorem exact_match_preferred:
  assumes "map_of m (normalize_name (PStr q)) = Some g" and "g \<noteq> PNone"
  shows "match_game_train m (normalize_name (PStr q)) = g
       \<and> match_game_predict m (normalize_name (PStr q)) = g"
  using assms by (simp add: match_game_train_def match_game_predict_def dict_get_def)


lemmas match_defs = fuzzy_cond_def match_game_train_def match_game_predict_def dict_get_def

theorem exact_match_preferred_witness:
  "map_of [(''hexagon'', PStr ''Hexagon''), (''hex'', PStr ''Hex'')] (normalize_name (PStr ''Hex!''))
      = Some (PStr ''Hex'')
   \<and> PStr ''Hex'' \<noteq> PNone
   \<and> fuzzy_first [(''hexagon'', PStr ''Hexagon''), (''hex'', PStr ''Hex'')] ''hex'' = Some (PStr ''Hexagon'')
   \<and> match_game_train [(''hexagon'', PStr ''Hexagon''), (''hex'', PStr ''Hex'')]
        (normalize_name (PStr ''Hex!'')) = PStr ''Hex''
   \<and> match_game_predict [(''hexagon'', PStr ''Hexagon''), (''hex'', PStr ''Hex'')]
        (normalize_name (PStr ''Hex!'')) = PStr ''Hex''"
  using exact_match_preferred[of "[(''hexagon'', PStr ''Hexagon''), (''hex'', PStr ''Hex'')]" "''Hex!''" "PStr ''Hex''"]
  by (simp add: str_defs fuzzy_cond_def)

text \<open>
  Claim C10. For every query name whose normalized form is empty, a non-empty property
  table and a mapping built from it that has no empty key: the fuzzy scan stops at the
  first entry of the mapping (the empty string is a prefix of every key), so both scripts
  resolve the query to the canonical name of that entry; the name is a non-empty string,
  and the prediction entry point, given its model and schema, returns a value instead of
  failing with the no-match error.
\<close>

theorem empty_query_matches_first_entry:
  assumes "normalize_name (PStr q) = []"
    and "games_df \<noteq> []"
    and "map_of (norm_map games_df) [] = None"
  shows "match_game_predict (norm_map games_df) (normalize_name (PStr q)) = snd (hd (norm_map games_df))
       \<and> match_game_train (norm_map games_df) (normalize_name (PStr q)) = snd (hd (norm_map games_df))
       \<and> snd (hd (norm_map games_df)) \<noteq> PNone
       \<and> (model_file st \<noteq> None \<and> features_file st \<noteq> None \<and> game_props_file st = Some games_df
            \<longrightarrow> (\<exists>y. predict_winrate L st q v = Inr y))"
proof -
  let ?m = "norm_map games_df"
  have ne: "?m \<noteq> []" using assms(2) by (rule norm_map_nonempty)
  obtain n g where hd: "hd ?m = (n, g)" by (cases "hd ?m")
  have mem: "(n, g) \<in> set ?m" using ne hd by (metis hd_in_set)
  then obtain r where r: "r \<in> set games_df" "g = game_name r" "n = normalize_name (game_name r)"
    using norm_map_entries by blast
  have "n \<noteq> []"
  proof
    assume "n = []"
    then have "map_of ?m [] \<noteq> None" using mem by (metis map_of_eq_None_iff fst_conv image_eqI)
    then show False using assms(3) by simp
  qed
  then obtain s where s: "g = PStr s" "s \<noteq> []"
    using r normalize_nonempty_str by blast
  have ff: "fuzzy_first ?m [] = Some g"
    using fuzzy_first_empty[OF ne] hd by simp
  have p: "match_game_predict ?m [] = g"
    using assms(3) ff by (simp add: match_game_predict_def dict_get_def)
  have t: "match_game_train ?m [] = g"
    using assms(3) ff s by (simp add: match_game_train_def dict_get_def)
  obtain prow where prow: "first_game_row games_df (PStr s) = Some prow"
    using first_game_row_str r s by metis
  have pw: "\<exists>y. predict_winrate L st q v = Inr y"
    if "model_file st \<noteq> None \<and> features_file st \<noteq> None \<and> game_props_file st = Some games_df"
    using that p s prow assms(1) by (auto simp: predict_winrate_def)
  show ?thesis using p t s hd pw assms(1) by simp
qed

theorem empty_query_matches_first_entry_witness:
  "normalize_name (PStr ''?!'') = []
   \<and> [\<lparr>game_name = PStr ''Hex'', props = []\<rparr>, \<lparr>game_name = PStr ''Go'', props = []\<rparr>] \<noteq> []
   \<and> map_of (norm_map [\<lparr>game_name = PStr ''Hex'', props = []\<rparr>, \<lparr>game_name = PStr ''Go'', props = []\<rparr>]) [] = None
   \<and> match_game_predict (norm_map [\<lparr>game_name = PStr ''Hex'', props = []\<rparr>, \<lparr>game_name = PStr ''Go'', props = []\<rparr>])
        (normalize_name (PStr ''?!'')) = PStr ''Hex''
   \<and> match_game_train (norm_map [\<lparr>game_name = PStr ''Hex'', props = []\<rparr>, \<lparr>game_name = PStr ''Go'', props = []\<rparr>])
        (normalize_name (PStr ''?!'')) = PStr ''Hex''
   \<and> (\<exists>y. predict_winrate \<lparr>float_str = (\<lambda>s. None), str_num = (\<lambda>x. [])\<rparr>
          \<lparr>model_file = Some (\<lambda>x. Finite 2), features_file = Some [],
           game_props_file = Some [\<lparr>game_name = PStr ''Hex'', props = []\<rparr>, \<lparr>game_name = PStr ''Go'', props = []\<rparr>]\<rparr>
          ''?!'' ''A|B'' = Inr y)"
  using empty_query_matches_first_entry[of "''?!''"
      "[\<lparr>game_name = PStr ''Hex'', props = []\<rparr>, \<lparr>game_name = PStr ''Go'', props = []\<rparr>]"
      "\<lparr>model_file = Some (\<lambda>x. Finite 2), features_file = Some [],
           game_props_file = Some [\<lparr>game_name = PStr ''Hex'', props = []\<rparr>, \<lparr>game_name = PStr ''Go'', props = []\<rparr>]\<rparr>"
      "\<lparr>float_str = (\<lambda>s. None), str_num = (\<lambda>x. [])\<rparr>" "''A|B''"]
  by (simp add: str_defs norm_map_def)

subsection \<open>Facts about the prediction entry point\<close>

lemma less4_cases: "i < 4 \<Longrightarrow> i = 0 \<or> i = 1 \<or> i = 2 \<or> i = (3::nat)"
  by arith

lemma comp_cols_facts:
  assumes "i < 4"
  shows "CHR ''='' \<notin> set (comp_cols ! i)"
    and "map_of (variant_by_comp parts) (comp_cols ! i) = Some (parts ! i)"
  using less4_cases[OF assms] by (auto simp: comp_cols_def variant_by_comp_def)

lemma takeWhile_until: "d \<notin> set xs \<Longrightarrow> takeWhile (\<lambda>c. c \<noteq> d) (xs @ d # ys) = xs"
  by (induction xs) auto

lemma dropWhile_until: "d \<notin> set xs \<Longrightarrow> dropWhile (\<lambda>c. c \<noteq> d) (xs @ d # ys) = d # ys"
  by (induction xs) auto

lemma token_feature_of_component:
  assumes "i < 4"
  shows "token_feature parts (comp_cols ! i @ ''='' @ w) = onehot (parts ! i = w)"
proof -
  let ?c = "comp_cols ! i"
  have noeq: "CHR ''='' \<notin> set ?c" using assms by (rule comp_cols_facts(1))
  have tw: "takeWhile (\<lambda>c. c \<noteq> CHR ''='') (?c @ ''='' @ w) = ?c"
    using takeWhile_until[OF noeq] by simp
  have dw: "dropWhile (\<lambda>c. c \<noteq> CHR ''='') (?c @ ''='' @ w) = ''='' @ w"
    using dropWhile_until[OF noeq] by simp
  show ?thesis
    unfolding token_feature_def Let_def tw dw
    using comp_cols_facts(2)[OF assms, of parts] by simp
qed

lemma startswith_append: "startswith s p \<Longrightarrow> s = p @ drop (length p) s"
  unfolding startswith_def by (metis append_take_drop_id)

lemma token_names_subset: "set (token_names_of fns) \<subseteq> set fns"
  by (auto simp: token_names_of_def)

lemma vector_length:
  "length (num_part L prow fns @ token_part fns v) = length fns"
  by (simp add: num_part_def token_part_def token_names_of_def sum_length_filter_compl)

lemma predict_winrate_isl_variant:
  "isl (predict_winrate L st g v) = isl (predict_winrate L st g v')"
  by (simp add: predict_winrate_def Let_def split: option.splits)

text \<open>
  Claim C4. Take a query variant and one of its four components whose value is not in
  the persisted schema's vocabulary for that component, that is, the schema has no
  feature name \<^verbatim>\<open><component>=<value>\<close> for it. Then every one-hot feature of that
  component (every schema name that starts with \<^verbatim>\<open><component>=\<close>) is encoded as 0. The
  encoder emits exactly one entry per categorical name of the schema and the whole
  vector has the length of the schema, so the schema is never extended; and whether
  \<^verbatim>\<open>predict_winrate\<close> fails does not depend on the variant string at all, so an unseen
  value never raises.
\<close>

theorem unseen_component_value_all_zero:
  assumes "i < 4"
    and "comp_cols ! i @ ''='' @ (variant_parts v ! i) \<notin> set feature_names"
  shows "(\<forall>j < length (token_names_of feature_names).
            startswith (token_names_of feature_names ! j) (comp_cols ! i @ ''='')
            \<longrightarrow> token_part feature_names v ! j = Finite 0)
       \<and> length (token_part feature_names v) = length (token_names_of feature_names)
       \<and> length (num_part L prow feature_names @ token_part feature_names v) = length feature_names
       \<and> isl (predict_winrate L st g v) = isl (predict_winrate L st g v')"
proof -
  have zero: "token_part feature_names v ! j = Finite 0"
    if j: "j < length (token_names_of feature_names)"
      and sw: "startswith (token_names_of feature_names ! j) (comp_cols ! i @ ''='')" for j
  proof -
    let ?f = "token_names_of feature_names ! j"
    obtain w where w: "?f = comp_cols ! i @ ''='' @ w"
      using startswith_append[OF sw] by (metis append.assoc)
    have "?f \<in> set feature_names"
      using j token_names_subset nth_mem by blast
    then have "variant_parts v ! i \<noteq> w" using assms(2) w by auto
    then have "token_feature (variant_parts v) ?f = Finite 0"
      using token_feature_of_component[OF assms(1), of "variant_parts v" w] w by (simp add: onehot_def)
    then show ?thesis using j by (simp add: token_part_def)
  qed
  have len: "length (token_part feature_names v) = length (token_names_of feature_names)"
    by (simp add: token_part_def)
  show ?thesis
    using zero len vector_length[of L prow feature_names v] predict_winrate_isl_variant[of L st g v v']
    by blast
qed


lemmas predict_defs = predict_winrate_def norm_map_def match_game_predict_def dict_get_def
  fuzzy_cond_def first_game_row_def num_part_def token_part_def token_names_of_def
  token_feature_def variant_by_comp_def variant_parts_def row_items_def nan_to_num_def
  np_clip_def onehot_def float_or_zero_def GAME_PROPS_def not_trained_def game_not_found_def

theorem unseen_component_value_all_zero_witness:
  "(0::nat) < 4
   \<and> comp_cols ! 0 @ ''='' @ (variant_parts ''Unseen|Random'' ! 0)
        \<notin> set [''game_size'', ''variant_select=UCB1'', ''variant_select=Other'',
                 ''variant_simulation=Random'']
   \<and> 0 < length (token_names_of [''game_size'', ''variant_select=UCB1'', ''variant_select=Other'',
                 ''variant_simulation=Random''])
   \<and> startswith (token_names_of [''game_size'', ''variant_select=UCB1'', ''variant_select=Other'',
                 ''variant_simulation=Random''] ! 0) (comp_cols ! 0 @ ''='')
   \<and> token_part [''game_size'', ''variant_select=UCB1'', ''variant_select=Other'',
                  ''variant_simulation=Random''] ''Unseen|Random'' ! 0 = Finite 0
   \<and> token_part [''game_size'', ''variant_select=UCB1'', ''variant_select=Other'',
                  ''variant_simulation=Random''] ''Unseen|Random''
        = [Finite 0, Finite 0, Finite 1]"
proof -
  let ?fn = "[''game_size'', ''variant_select=UCB1'', ''variant_select=Other'',
                 ''variant_simulation=Random'']"
  have h: "comp_cols ! 0 @ ''='' @ (variant_parts ''Unseen|Random'' ! 0) \<notin> set ?fn"
    by (simp add: comp_cols_def variant_parts_def str_defs)
  have e: "token_part ?fn ''Unseen|Random'' = [Finite 0, Finite 0, Finite 1]"
    by (simp add: predict_defs str_defs)
  have z: "(0::nat) < 4" by simp
  have j: "0 < length (token_names_of ?fn)"
    by (simp add: token_names_of_def startswith_def)
  have sw: "startswith (token_names_of ?fn ! 0) (comp_cols ! 0 @ ''='')"
    by (simp add: token_names_of_def comp_cols_def startswith_def)
  have r: "token_part ?fn ''Unseen|Random'' ! 0 = Finite 0"
    using unseen_component_value_all_zero[OF z h, THEN conjunct1] j sw by blast
  show ?thesis
    by (intro conjI z h j sw r e)
qed







lemma fuzzy_first_mem: "fuzzy_first m nrm = Some g \<Longrightarrow> \<exists>n. (n, g) \<in> set m"
  by (induction m nrm rule: fuzzy_first.induct) (auto split: if_splits)

lemma match_game_predict_mem:
  assumes "match_game_predict m nrm = g" and "g \<noteq> PNone"
  shows "\<exists>n. (n, g) \<in> set m"
proof (cases "dict_get m nrm = PNone")
  case True
  then have "fuzzy_first m nrm = Some g"
    using assms by (auto simp: match_game_predict_def split: option.splits)
  then show ?thesis by (rule fuzzy_first_mem)
next
  case False
  then have "map_of m nrm = Some g"
    using assms by (auto simp: match_game_predict_def dict_get_def split: option.splits)
  then show ?thesis using map_of_SomeD by fast
qed

text \<open>
  Claim C9, as amended. \<^verbatim>\<open>predict_winrate\<close> fails with the "model not trained" error
  when the persisted model or the persisted schema is absent; with both present it fails
  with the library's file-not-found error when the property table is absent; with the
  table loaded it fails with the "game not found" error when the matcher resolves the
  name to nothing; and it returns a float when the matcher resolves the name to a
  string, the name of a row of the table.
\<close>

theorem predict_winrate_failures:
  "(model_file st = None \<or> features_file st = None
      \<longrightarrow> predict_winrate L st g v = Inl not_trained)
   \<and> (model_file st \<noteq> None \<and> features_file st \<noteq> None \<and> game_props_file st = None
      \<longrightarrow> predict_winrate L st g v = Inl (FileNotFoundError GAME_PROPS))
   \<and> (model_file st \<noteq> None \<and> features_file st \<noteq> None \<and> game_props_file st = Some games_df
        \<and> match_game_predict (norm_map games_df) (normalize_name (PStr g)) = PNone
      \<longrightarrow> predict_winrate L st g v = Inl (game_not_found g))
   \<and> (model_file st \<noteq> None \<and> features_file st \<noteq> None \<and> game_props_file st = Some games_df
        \<and> match_game_predict (norm_map games_df) (normalize_name (PStr g)) = PStr s
      \<longrightarrow> (\<exists>y. predict_winrate L st g v = Inr y))"
proof (intro conjI impI)
  assume "model_file st = None \<or> features_file st = None"
  then show "predict_winrate L st g v = Inl not_trained"
    by (auto simp: predict_winrate_def split: option.splits)
next
  assume "model_file st \<noteq> None \<and> features_file st \<noteq> None \<and> game_props_file st = None"
  then show "predict_winrate L st g v = Inl (FileNotFoundError GAME_PROPS)"
    by (auto simp: predict_winrate_def split: option.splits)
next
  assume "model_file st \<noteq> None \<and> features_file st \<noteq> None \<and> game_props_file st = Some games_df
        \<and> match_game_predict (norm_map games_df) (normalize_name (PStr g)) = PNone"
  then show "predict_winrate L st g v = Inl (game_not_found g)"
    by (auto simp: predict_winrate_def split: option.splits)
next
  assume a: "model_file st \<noteq> None \<and> features_file st \<noteq> None \<and> game_props_file st = Some games_df
        \<and> match_game_predict (norm_map games_df) (normalize_name (PStr g)) = PStr s"
  then obtain n where "(n, PStr s) \<in> set (norm_map games_df)"
    using match_game_predict_mem[of "norm_map games_df" "normalize_name (PStr g)" "PStr s"] by auto
  then obtain r where "r \<in> set games_df" "game_name r = PStr s"
    using norm_map_entries by metis
  then obtain prow where "first_game_row games_df (PStr s) = Some prow"
    using first_game_row_str by blast
  then show "\<exists>y. predict_winrate L st g v = Inr y"
    using a by (auto simp: predict_winrate_def)
qed


theorem predict_winrate_failures_witness:
  "features_file \<lparr>model_file = Some (\<lambda>x. Finite 2), features_file = None, game_props_file = None\<rparr> = None
   \<and> predict_winrate \<lparr>float_str = (\<lambda>s. None), str_num = (\<lambda>x. [])\<rparr>
        \<lparr>model_file = Some (\<lambda>x. Finite 2), features_file = None, game_props_file = None\<rparr>
        ''Hex'' ''UCB1'' = Inl not_trained
   \<and> predict_winrate \<lparr>float_str = (\<lambda>s. None), str_num = (\<lambda>x. [])\<rparr>
        \<lparr>model_file = Some (\<lambda>x. Finite 2), features_file = Some [], game_props_file = None\<rparr>
        ''Hex'' ''UCB1'' = Inl (FileNotFoundError GAME_PROPS)
   \<and> match_game_predict (norm_map [\<lparr>game_name = PStr ''Hex'', props = []\<rparr>]) (normalize_name (PStr ''Chess''))
        = PNone
   \<and> predict_winrate \<lparr>float_str = (\<lambda>s. None), str_num = (\<lambda>x. [])\<rparr>
        \<lparr>model_file = Some (\<lambda>x. Finite 2), features_file = Some [],
         game_props_file = Some [\<lparr>game_name = PStr ''Hex'', props = []\<rparr>]\<rparr>
        ''Chess'' ''UCB1'' = Inl (game_not_found ''Chess'')
   \<and> match_game_predict (norm_map [\<lparr>game_name = PStr ''Hex'', props = []\<rparr>]) (normalize_name (PStr ''hex''))
        = PStr ''Hex''
   \<and> (\<exists>y. predict_winrate \<lparr>float_str = (\<lambda>s. None), str_num = (\<lambda>x. [])\<rparr>
        \<lparr>model_file = Some (\<lambda>x. Finite 2), features_file = Some [],
         game_props_file = Some [\<lparr>game_name = PStr ''Hex'', props = []\<rparr>]\<rparr>
        ''hex'' ''UCB1'' = Inr y)"
proof -
  let ?L = "\<lparr>float_str = (\<lambda>s. None), str_num = (\<lambda>x. [])\<rparr>"
  let ?df = "[\<lparr>game_name = PStr ''Hex'', props = []\<rparr>]"
  let ?st1 = "\<lparr>model_file = Some (\<lambda>x. Finite 2), features_file = None, game_props_file = None\<rparr>"
  let ?st2 = "\<lparr>model_file = Some (\<lambda>x. Finite 2), features_file = Some [], game_props_file = None\<rparr>"
  let ?st3 = "\<lparr>model_file = Some (\<lambda>x. Finite 2), features_file = Some [], game_props_file = Some ?df\<rparr>"
  have m3: "match_game_predict (norm_map ?df) (normalize_name (PStr ''Chess'')) = PNone"
    by (simp add: norm_map_def match_game_predict_def dict_get_def fuzzy_cond_def str_defs)
  have m4: "match_game_predict (norm_map ?df) (normalize_name (PStr ''hex'')) = PStr ''Hex''"
    by (simp add: norm_map_def match_game_predict_def dict_get_def fuzzy_cond_def str_defs)
  have a1: "predict_winrate ?L ?st1 ''Hex'' ''UCB1'' = Inl not_trained"
    using predict_winrate_failures[of ?st1 ?L "''Hex''" "''UCB1''"] by simp
  have a2: "predict_winrate ?L ?st2 ''Hex'' ''UCB1'' = Inl (FileNotFoundError GAME_PROPS)"
    using predict_winrate_failures[of ?st2 ?L "''Hex''" "''UCB1''"] by simp
  have a3: "predict_winrate ?L ?st3 ''Chess'' ''UCB1'' = Inl (game_not_found ''Chess'')"
    using predict_winrate_failures[of ?st3 ?L "''Chess''" "''UCB1''" ?df] m3 by simp
  have a4: "\<exists>y. predict_winrate ?L ?st3 ''hex'' ''UCB1'' = Inr y"
    using predict_winrate_failures[of ?st3 ?L "''hex''" "''UCB1''" ?df "''Hex''"] m4 by simp
  show ?thesis using m3 m4 a1 a2 a3 a4 by simp
qed

text \<open>
  The claim as the specification states it names two causes of failure only. With the
  model and the schema present and the property table absent, the call fails, and the
  error is neither the "model not trained" error nor the "game not found" error.
\<close>

theorem predict_winrate_missing_table_counterexample:
  "model_file \<lparr>model_file = Some (\<lambda>x. Finite 2), features_file = Some [], game_props_file = None\<rparr> \<noteq> None
   \<and> features_file \<lparr>model_file = Some (\<lambda>x. Finite 2), features_file = Some [], game_props_file = None\<rparr> \<noteq> None
   \<and> predict_winrate \<lparr>float_str = (\<lambda>s. None), str_num = (\<lambda>x. [])\<rparr>
        \<lparr>model_file = Some (\<lambda>x. Finite 2), features_file = Some [], game_props_file = None\<rparr>
        ''Hex'' ''UCB1'' = Inl (FileNotFoundError GAME_PROPS)
   \<and> FileNotFoundError GAME_PROPS \<noteq> not_trained
   \<and> FileNotFoundError GAME_PROPS \<noteq> game_not_found ''Hex''"
  by (simp add: predict_winrate_def GAME_PROPS_def not_trained_def game_not_found_def)

subsection \<open>Facts about the log parser\<close>

lemma labelled_match_prefix:
  assumes "labelled_match label line = Some g"
  shows "lower (take (length label) line) = lower label"
  using assms
  by (auto simp: labelled_match_def split: option.splits if_splits prod.splits list.splits)

lemma GAME_not_VARIANT:
  assumes "GAME_RE line = Some g"
  shows "VARIANT_RE line = None"
proof (rule ccontr)
  assume "VARIANT_RE line \<noteq> None"
  then obtain v where v: "labelled_match ''Variant:'' line = Some v"
    by (auto simp: VARIANT_RE_def)
  have a: "lower (take 5 line) = ''game:''"
    using labelled_match_prefix[of "''Game:''" line g] assms
    by (simp add: GAME_RE_def lower_def lower_char_def eval_nat_numeral)
  have b: "lower (take 8 line) = ''variant:''"
    using labelled_match_prefix[OF v] by (simp add: lower_def lower_char_def eval_nat_numeral)
  have "take 5 (lower (take 8 line)) = lower (take 5 line)"
    by (simp add: lower_def take_map min_def)
  then show False using a b by simp
qed

lemma RE_empty: "GAME_RE [] = None" "VARIANT_RE [] = None" "COMPLETED_RE [] = None"
  by (simp_all add: GAME_RE_def VARIANT_RE_def COMPLETED_RE_def labelled_match_def str_defs)

lemma parse_line_game:
  assumes "parse_line data raw = Inr d"
  shows "game d = (case GAME_RE (strip raw) of Some g \<Rightarrow> Some (strip g) | None \<Rightarrow> game data)"
  using assms
  by (auto simp: parse_line_def Let_def RE_empty split: option.splits if_splits)

lemma parse_line_variant:
  assumes "parse_line data raw = Inr d"
  shows "variant d = (case VARIANT_RE (strip raw) of Some v \<Rightarrow> Some (strip v) | None \<Rightarrow> variant data)"
  using assms GAME_not_VARIANT[of "strip raw"]
  by (auto simp: parse_line_def Let_def RE_empty split: option.splits if_splits)

lemma parse_line_completed:
  assumes "parse_line data raw = Inr d"
  shows "(wins d, games d, avgMoves d) =
     (if GAME_RE (strip raw) = None \<and> VARIANT_RE (strip raw) = None then
        (case COMPLETED_RE (strip raw) of
           Some gs \<Rightarrow> (Some (int_of_digits (gs ! 2)), Some (int_of_digits (gs ! 0)), float_of_decimal (gs ! 6))
         | None \<Rightarrow> (wins data, games data, avgMoves data))
      else (wins data, games data, avgMoves data))"
  using assms
  by (auto simp: parse_line_def Let_def RE_empty split: option.splits if_splits)

lemma parse_lines_append:
  "parse_lines data (xs @ ys) =
     (case parse_lines data xs of Inl e \<Rightarrow> Inl e | Inr d \<Rightarrow> parse_lines d ys)"
  by (induction xs arbitrary: data) (auto split: sum.splits)


lemma parse_lines_keep_game:
  assumes "parse_lines d0 post = Inr d" and "\<forall>l\<in>set post. GAME_RE (strip l) = None"
  shows "game d = game d0"
  using assms
proof (induction post arbitrary: d0)
  case Nil
  then show ?case by simp
next
  case (Cons l ls)
  from Cons.prems(1) obtain d1 where d1: "parse_line d0 l = Inr d1" "parse_lines d1 ls = Inr d"
    by (auto split: sum.splits)
  have "game d1 = game d0" using parse_line_game[OF d1(1)] Cons.prems(2) by simp
  moreover have "game d = game d1" using Cons.IH[OF d1(2)] Cons.prems(2) by simp
  ultimately show ?case by simp
qed

lemma parse_lines_keep_variant:
  assumes "parse_lines d0 post = Inr d" and "\<forall>l\<in>set post. VARIANT_RE (strip l) = None"
  shows "variant d = variant d0"
  using assms
proof (induction post arbitrary: d0)
  case Nil
  then show ?case by simp
next
  case (Cons l ls)
  from Cons.prems(1) obtain d1 where d1: "parse_line d0 l = Inr d1" "parse_lines d1 ls = Inr d"
    by (auto split: sum.splits)
  have "variant d1 = variant d0" using parse_line_variant[OF d1(1)] Cons.prems(2) by simp
  moreover have "variant d = variant d1" using Cons.IH[OF d1(2)] Cons.prems(2) by simp
  ultimately show ?case by simp
qed

lemma parse_lines_keep_completed:
  assumes "parse_lines d0 post = Inr d"
    and "\<forall>l\<in>set post. GAME_RE (strip l) \<noteq> None \<or> VARIANT_RE (strip l) \<noteq> None
                      \<or> COMPLETED_RE (strip l) = None"
  shows "(wins d, games d, avgMoves d) = (wins d0, games d0, avgMoves d0)"
  using assms
proof (induction post arbitrary: d0)
  case Nil
  then show ?case by simp
next
  case (Cons l ls)
  from Cons.prems(1) obtain d1 where d1: "parse_line d0 l = Inr d1" "parse_lines d1 ls = Inr d"
    by (auto split: sum.splits)
  have "GAME_RE (strip l) \<noteq> None \<or> VARIANT_RE (strip l) \<noteq> None \<or> COMPLETED_RE (strip l) = None"
    using Cons.prems(2) by simp
  then have "(wins d1, games d1, avgMoves d1) = (wins d0, games d0, avgMoves d0)"
    using parse_line_completed[OF d1(1)] by (auto split: option.splits)
  moreover have "(wins d, games d, avgMoves d) = (wins d1, games d1, avgMoves d1)"
    using Cons.IH[OF d1(2)] Cons.prems(2) by simp
  ultimately show ?case by simp
qed

lemma parse_lines_split:
  assumes "parse_lines data (pre @ l # post) = Inr d"
  shows "\<exists>d0 d1. parse_lines data pre = Inr d0 \<and> parse_line d0 l = Inr d1 \<and> parse_lines d1 post = Inr d"
  using assms by (auto simp: parse_lines_append split: sum.splits)

text \<open>
  Claim C2, as amended. Whenever the parser returns, each field holds what the last
  line that sets it assigns, not the first: \<^verbatim>\<open>game\<close> comes from the last line matching the
  game pattern and \<^verbatim>\<open>variant\<close> from the last line matching the variant pattern; the
  triple \<^verbatim>\<open>wins\<close>, \<^verbatim>\<open>games\<close>, \<^verbatim>\<open>avgMoves\<close> comes from the last line that contains the summary
  pattern and matches neither of the other two (such a line is consumed by the earlier
  test and never reaches the summary test). Every matching line overwrites the field,
  because the loop assigns without looking at the old value.
\<close>

theorem last_match_wins:
  assumes "parse_lines data (pre @ l # post) = Inr d"
  shows "(GAME_RE (strip l) = Some g \<and> (\<forall>l'\<in>set post. GAME_RE (strip l') = None)
            \<longrightarrow> game d = Some (strip g))
       \<and> (VARIANT_RE (strip l) = Some v \<and> (\<forall>l'\<in>set post. VARIANT_RE (strip l') = None)
            \<longrightarrow> variant d = Some (strip v))
       \<and> (GAME_RE (strip l) = None \<and> VARIANT_RE (strip l) = None \<and> COMPLETED_RE (strip l) = Some gs
            \<and> (\<forall>l'\<in>set post. GAME_RE (strip l') \<noteq> None \<or> VARIANT_RE (strip l') \<noteq> None
                               \<or> COMPLETED_RE (strip l') = None)
            \<longrightarrow> wins d = Some (int_of_digits (gs ! 2)) \<and> games d = Some (int_of_digits (gs ! 0))
                \<and> avgMoves d = float_of_decimal (gs ! 6))"
proof -
  obtain d0 d1 where s: "parse_lines data pre = Inr d0" "parse_line d0 l = Inr d1"
      "parse_lines d1 post = Inr d"
    using parse_lines_split[OF assms] by blast
  have a: "game d = Some (strip g)"
    if "GAME_RE (strip l) = Some g \<and> (\<forall>l'\<in>set post. GAME_RE (strip l') = None)"
    using that parse_line_game[OF s(2)] parse_lines_keep_game[OF s(3)] by simp
  have b: "variant d = Some (strip v)"
    if "VARIANT_RE (strip l) = Some v \<and> (\<forall>l'\<in>set post. VARIANT_RE (strip l') = None)"
    using that parse_line_variant[OF s(2)] parse_lines_keep_variant[OF s(3)] by simp
  have c: "wins d = Some (int_of_digits (gs ! 2)) \<and> games d = Some (int_of_digits (gs ! 0))
                \<and> avgMoves d = float_of_decimal (gs ! 6)"
    if "GAME_RE (strip l) = None \<and> VARIANT_RE (strip l) = None \<and> COMPLETED_RE (strip l) = Some gs
            \<and> (\<forall>l'\<in>set post. GAME_RE (strip l') \<noteq> None \<or> VARIANT_RE (strip l') \<noteq> None
                               \<or> COMPLETED_RE (strip l') = None)"
    using that parse_line_completed[OF s(2)] parse_lines_keep_completed[OF s(3)] by simp
  show ?thesis using a b c by blast
qed

lemmas parse_defs = GAME_RE_def VARIANT_RE_def COMPLETED_RE_def labelled_match_def not_newline_def
  isfloatchar_def parse_line_def empty_data_def

text \<open>
  The claim as the specification states it (the first match wins and later matches leave
  the field unchanged) fails on the example log: its first three lines match the three
  patterns, yet the parser returns the values of the last three.
\<close>

theorem first_match_counterexample:
  "GAME_RE (strip (two_runs_log ! 0)) = Some ''Hex''
   \<and> VARIANT_RE (strip (two_runs_log ! 1)) = Some ''UCB1|Random|Average|Robust''
   \<and> COMPLETED_RE (strip (two_runs_log ! 2)) = Some [''10'', ''10'', ''4'', ''6'', ''0'', ''0'', ''20.5'']
   \<and> parse_out_file (\<lambda>p. Some two_runs_log) ''job.out'' =
       Inr \<lparr>game = Some ''Chess'', variant = Some ''UCB1|MAST'', wins = Some 6, games = Some 8,
            avgMoves = Some (Finite 31)\<rparr>"
  by (simp add: two_runs_log_def parse_out_file_def parse_defs str_defs)


theorem last_match_wins_witness:
  "parse_lines empty_data two_runs_log =
       Inr \<lparr>game = Some ''Chess'', variant = Some ''UCB1|MAST'', wins = Some 6, games = Some 8,
            avgMoves = Some (Finite 31)\<rparr>
   \<and> GAME_RE (strip ''Game: Chess'') = Some ''Chess''
   \<and> GAME_RE (strip ''Variant: UCB1|MAST'') = None
   \<and> VARIANT_RE (strip ''Variant: UCB1|MAST'') = Some ''UCB1|MAST''
   \<and> GAME_RE (strip (two_runs_log ! 5)) = None \<and> VARIANT_RE (strip (two_runs_log ! 5)) = None
   \<and> COMPLETED_RE (strip (two_runs_log ! 5)) = Some [''8'', ''10'', ''6'', ''2'', ''0'', ''0'', ''31.0'']
   \<and> game \<lparr>game = Some ''Chess'', variant = Some ''UCB1|MAST'', wins = Some 6, games = Some 8,
            avgMoves = Some (Finite 31)\<rparr> = Some (strip ''Chess'')
   \<and> variant \<lparr>game = Some ''Chess'', variant = Some ''UCB1|MAST'', wins = Some 6, games = Some 8,
            avgMoves = Some (Finite 31)\<rparr> = Some (strip ''UCB1|MAST'')
   \<and> wins \<lparr>game = Some ''Chess'', variant = Some ''UCB1|MAST'', wins = Some 6, games = Some 8,
            avgMoves = Some (Finite 31)\<rparr> = Some (int_of_digits ''6'')"
proof -
  let ?R = "\<lparr>game = Some ''Chess'', variant = Some ''UCB1|MAST'', wins = Some 6, games = Some 8,
            avgMoves = Some (Finite 31)\<rparr>"
  let ?c1 = "''completed=10/10, wins=4, losses=6, draws=0, failures=0, avgMoves=20.5''"
  let ?c2 = "''completed=8/10, wins=6, losses=2, draws=0, failures=0, avgMoves=31.0''"
  have e: "parse_lines empty_data two_runs_log = Inr ?R"
    by (simp add: two_runs_log_def parse_defs str_defs)
  have e1: "parse_lines empty_data
      ([''Game: Hex'', ''Variant: UCB1|Random|Average|Robust'', ?c1] @ ''Game: Chess'' # [''Variant: UCB1|MAST'', ?c2])
      = Inr ?R"
    using e by (simp add: two_runs_log_def)
  have e2: "parse_lines empty_data
      ([''Game: Hex'', ''Variant: UCB1|Random|Average|Robust'', ?c1, ''Game: Chess''] @ ''Variant: UCB1|MAST'' # [?c2])
      = Inr ?R"
    using e by (simp add: two_runs_log_def)
  have e3: "parse_lines empty_data
      ([''Game: Hex'', ''Variant: UCB1|Random|Average|Robust'', ?c1, ''Game: Chess'', ''Variant: UCB1|MAST''] @ ?c2 # [])
      = Inr ?R"
    using e by (simp add: two_runs_log_def)
  have g: "GAME_RE (strip ''Game: Chess'') = Some ''Chess''"
    by (simp add: parse_defs str_defs)
  have gp: "\<forall>l'\<in>set [''Variant: UCB1|MAST'', ?c2]. GAME_RE (strip l') = None"
    by (simp add: parse_defs str_defs)
  have v: "VARIANT_RE (strip ''Variant: UCB1|MAST'') = Some ''UCB1|MAST''"
    by (simp add: parse_defs str_defs)
  have vp: "\<forall>l'\<in>set [?c2]. VARIANT_RE (strip l') = None"
    by (simp add: parse_defs str_defs)
  have c: "GAME_RE (strip ?c2) = None \<and> VARIANT_RE (strip ?c2) = None
      \<and> COMPLETED_RE (strip ?c2) = Some [''8'', ''10'', ''6'', ''2'', ''0'', ''0'', ''31.0'']"
    by (simp add: parse_defs str_defs)
  have r1: "game ?R = Some (strip ''Chess'')"
    by (rule last_match_wins[OF e1, of "''Chess''", THEN conjunct1, THEN mp]) (intro conjI g gp)
  have r2: "variant ?R = Some (strip ''UCB1|MAST'')"
    by (rule last_match_wins[OF e2, of _ "''UCB1|MAST''", THEN conjunct2, THEN conjunct1, THEN mp])
       (intro conjI v vp)
  have cp: "\<forall>l'\<in>set []. GAME_RE (strip l') \<noteq> None \<or> VARIANT_RE (strip l') \<noteq> None
                               \<or> COMPLETED_RE (strip l') = None"
    by simp
  have r3: "wins ?R = Some (int_of_digits ''6'')"
    using last_match_wins[OF e3, of _ _ "[''8'', ''10'', ''6'', ''2'', ''0'', ''0'', ''31.0'']",
        THEN conjunct2, THEN conjunct2, THEN mp, OF conjI[OF c[THEN conjunct1]
          conjI[OF c[THEN conjunct2, THEN conjunct1] conjI[OF c[THEN conjunct2, THEN conjunct2] cp]]],
        THEN conjunct1]
    by simp
  have gv: "GAME_RE (strip ''Variant: UCB1|MAST'') = None"
    using gp by simp
  have n5: "two_runs_log ! 5 = ?c2"
    by (simp add: two_runs_log_def)
  show ?thesis
    unfolding n5
    by (intro conjI e g gv v c[THEN conjunct1] c[THEN conjunct2, THEN conjunct1]
          c[THEN conjunct2, THEN conjunct2] r1 r2 r3)
qed

subsection \<open>Facts about the dataset builder\<close>

lemma int_of_digits_nonneg: "0 \<le> int_of_digits s"
  by (simp add: int_of_digits_def)

lemma parse_line_nonneg:
  assumes "parse_line d0 l = Inr d"
    and "\<forall>n. games d0 = Some n \<longrightarrow> 0 \<le> n"
  shows "\<forall>n. games d = Some n \<longrightarrow> 0 \<le> n"
proof -
  have "(wins d, games d, avgMoves d) =
     (if GAME_RE (strip l) = None \<and> VARIANT_RE (strip l) = None then
        (case COMPLETED_RE (strip l) of
           Some gs \<Rightarrow> (Some (int_of_digits (gs ! 2)), Some (int_of_digits (gs ! 0)), float_of_decimal (gs ! 6))
         | None \<Rightarrow> (wins d0, games d0, avgMoves d0))
      else (wins d0, games d0, avgMoves d0))"
    using assms(1) by (rule parse_line_completed)
  then show ?thesis using assms(2) int_of_digits_nonneg
    by (auto split: if_splits option.splits)
qed

lemma parse_lines_nonneg:
  assumes "parse_lines d0 ls = Inr d"
    and "\<forall>n. games d0 = Some n \<longrightarrow> 0 \<le> n"
  shows "\<forall>n. games d = Some n \<longrightarrow> 0 \<le> n"
  using assms
proof (induction ls arbitrary: d0)
  case Nil
  then show ?case by simp
next
  case (Cons l ls)
  from Cons.prems(1) obtain d1 where d1: "parse_line d0 l = Inr d1" "parse_lines d1 ls = Inr d"
    by (auto split: sum.splits)
  have "\<forall>n. games d1 = Some n \<longrightarrow> 0 \<le> n"
    using parse_line_nonneg[OF d1(1) Cons.prems(2)] .
  then show ?case using Cons.IH[OF d1(2)] by blast
qed

lemma parse_out_file_nonneg:
  assumes "parse_out_file opn path = Inr d" and "games d = Some n"
  shows "0 \<le> n"
proof -
  obtain ls where "parse_lines empty_data ls = Inr d"
    using assms(1) by (auto simp: parse_out_file_def split: option.splits)
  then show ?thesis
    using parse_lines_nonneg[of empty_data ls d] assms(2) by (simp add: empty_data_def)
qed

lemma process_job_parsed:
  assumes "process_job rd games_df bp = Inr (Some row)"
  shows "\<exists>out parsed g vo w n avg m prow.
           parse_out_file (read_lines rd) out = Inr parsed \<and> games parsed = Some n
           \<and> row = make_row (fst bp) g vo w n avg m prow"
proof -
  let ?skip = "case map_of (snd bp) ''err'' of
            None \<Rightarrow> False
          | Some e \<Rightarrow> e \<noteq> [] \<and> (case getsize rd e of None \<Rightarrow> False | Some sz \<Rightarrow> sz > 0)"
  have ns: "\<not> ?skip"
    using assms by (auto simp: process_job_def Let_def)
  obtain out where out: "map_of (snd bp) ''out'' = Some out" "out \<noteq> []"
    using assms ns by (auto simp: process_job_def Let_def split: option.splits if_splits)
  obtain parsed where parsed: "parse_out_file (read_lines rd) out = Inr parsed"
    using assms ns out by (auto simp: process_job_def Let_def split: sum.splits)
  obtain g w n where f: "game parsed = Some g" "wins parsed = Some w" "games parsed = Some n"
    using assms ns out parsed by (auto simp: process_job_def Let_def split: option.splits)
  have "\<exists>mg prow. row = make_row (fst bp) mg (variant parsed) w n (avgMoves parsed) (parse_meta rd out) prow"
    using assms ns out parsed f
    by (auto simp: process_job_def Let_def simp del: normalize_name.simps split: option.splits if_splits)
  then show ?thesis using parsed f(3) by blast
qed

lemma process_job_row:
  assumes "process_job rd games_df bp = Inr (Some row)"
  shows "\<exists>g vo w n avg m prow. row = make_row (fst bp) g vo w n avg m prow \<and> 0 \<le> n"
proof -
  obtain out parsed g vo w n avg m prow where
    p: "parse_out_file (read_lines rd) out = Inr parsed" "games parsed = Some n"
      "row = make_row (fst bp) g vo w n avg m prow"
    using process_job_parsed[OF assms] by blast
  then show ?thesis using parse_out_file_nonneg[OF p(1,2)] by blast
qed

lemma process_job_skip:
  assumes "map_of (snd bp) ''err'' = Some e" and "e \<noteq> []" and "getsize rd e = Some sz" and "0 < sz"
  shows "process_job rd games_df bp = Inr None"
  using assms by (simp add: process_job_def Let_def)

lemma collect_rows_mem:
  assumes "collect_rows rd games_df bps = Inr rows" and "r \<in> set rows"
  shows "\<exists>bp\<in>set bps. process_job rd games_df bp = Inr (Some r)"
  using assms
proof (induction bps arbitrary: rows)
  case Nil
  then show ?case by simp
next
  case (Cons bp bps)
  from Cons.prems(1) obtain x rest where x: "process_job rd games_df bp = Inr x"
    and rest: "collect_rows rd games_df bps = Inr rest"
    and rows: "rows = (case x of None \<Rightarrow> rest | Some row \<Rightarrow> row # rest)"
    by (auto split: sum.splits)
  show ?case
  proof (cases "r \<in> set rest")
    case True
    then show ?thesis using Cons.IH[OF rest] by auto
  next
    case False
    then have "x = Some r" using rows Cons.prems(2) by (cases x) auto
    then show ?thesis using x by simp
  qed
qed

lemma build_dataset_rows:
  assumes "build_dataset rd gp = Inr df" and "r \<in> set (records df)"
  shows "\<exists>games_df bp. gp = Some games_df \<and> bp \<in> set (bases_of (listdir rd))
            \<and> process_job rd games_df bp = Inr (Some r)"
proof -
  obtain rows where rows: "dataset_rows rd gp = Inr rows" "df = DataFrame rows"
    using assms(1) by (auto simp: build_dataset_def split: sum.splits)
  then obtain games_df where g: "gp = Some games_df"
      "collect_rows rd games_df (sort_key fst (bases_of (listdir rd))) = Inr rows"
    by (auto simp: dataset_rows_def split: option.splits)
  have "r \<in> set rows" using assms(2) rows(2) by (simp add: DataFrame_def)
  then obtain bp where "bp \<in> set (sort_key fst (bases_of (listdir rd)))"
      "process_job rd games_df bp = Inr (Some r)"
    using collect_rows_mem[OF g(2)] by blast
  then show ?thesis using g(1) by (metis set_sort)
qed

lemma make_row_cells:
  "cell (make_row base g vo w n avg m prow) ''job_base'' = PStr base"
  "cell (make_row base g vo w n avg m prow) ''wins'' = PInt w"
  "cell (make_row base g vo w n avg m prow) ''games'' = PInt n"
  "cell (make_row base g vo w n avg m prow) ''winrate''
     = PFloat (if n > 0 then Finite (real_of_int w / real_of_int n) else NaN)"
  unfolding cell_def by (subst make_row_fixed; simp add: startswith_def)+

text \<open>
  Claim C1, as amended. Every row of the built dataset carries integer \<^verbatim>\<open>wins\<close> and
  \<^verbatim>\<open>games\<close> with \<^verbatim>\<open>games\<close> not negative; its \<^verbatim>\<open>winrate\<close> is \<^verbatim>\<open>wins / games\<close> when
  \<^verbatim>\<open>games > 0\<close> and NaN when \<^verbatim>\<open>games = 0\<close>. A job whose completed-game count is zero is
  kept in the dataset with an undefined win rate; it is not excluded.
\<close>

theorem dataset_row_winrate:
  assumes "build_dataset rd gp = Inr df" and "r \<in> set (records df)"
  shows "\<exists>w n. cell r ''wins'' = PInt w \<and> cell r ''games'' = PInt n \<and> 0 \<le> n
          \<and> cell r ''winrate'' = PFloat (if n > 0 then Finite (real_of_int w / real_of_int n) else NaN)"
proof -
  obtain games_df bp where "process_job rd games_df bp = Inr (Some r)"
    using build_dataset_rows[OF assms] by blast
  then obtain g vo w n avg m prow where "r = make_row (fst bp) g vo w n avg m prow" "0 \<le> n"
    using process_job_row by blast
  then show ?thesis using make_row_cells(2,3,4)[of "fst bp" g vo w n avg m prow] by blast
qed


lemma ex_bases1: "bases_of (listdir zero_games_dir) = [(''job1'', [(''out'', ''job1.out''), (''err'', ''job1.err'')])]"
  by (simp add: zero_games_dir_def bases_of_def add_file_def endswith_def rsplit_dot_def)

lemma ex_parse1: "parse_out_file (read_lines zero_games_dir) ''job1.out'' =
    Inr \<lparr>game = Some ''Hex'', variant = Some ''UCB1'', wins = Some 0, games = Some 0,
         avgMoves = Some (Finite 0)\<rparr>"
  by (simp add: zero_games_dir_def parse_out_file_def parse_defs str_defs)

lemma ex_meta1: "parse_meta zero_games_dir ''job1.out'' = empty_meta"
  by (simp add: zero_games_dir_def parse_meta_def META_RE_def isfloatchar_def str_defs)

lemma ex_size1: "getsize zero_games_dir f = Some 0"
  by (simp add: zero_games_dir_def)

lemma ex_norm: "normalize_name (PStr ''Hex'') = ''hex''"
  by (simp add: str_defs)

lemma ex_match: "match_game_train (norm_map hex_table) ''hex'' = PStr ''Hex''"
  by (simp add: hex_table_def norm_map_def match_game_train_def dict_get_def str_defs)

lemma ex_first: "first_game_row hex_table (PStr ''Hex'') = Some \<lparr>game_name = PStr ''Hex'', props = [(''size'', PInt 11)]\<rparr>"
  by (simp add: hex_table_def first_game_row_def)

lemma ex_row1: "make_row ''job1'' (PStr ''Hex'') (Some ''UCB1'') 0 0 (Some (Finite 0)) empty_meta
     \<lparr>game_name = PStr ''Hex'', props = [(''size'', PInt 11)]\<rparr> = zero_games_row"
  by (simp add: make_row_def row_items_def variant_parts_def of_opt_str_def of_opt_float_def
        empty_meta_def zero_games_row_def str_defs numeral_3_eq_3)

lemma ex_job1:
  "process_job zero_games_dir hex_table (''job1'', [(''out'', ''job1.out''), (''err'', ''job1.err'')])
     = Inr (Some zero_games_row)"
  by (simp add: process_job_def ex_size1 ex_parse1 ex_meta1 ex_norm ex_match ex_first ex_row1
        del: normalize_name.simps)

lemma zero_games_dataset:
  "build_dataset zero_games_dir (Some hex_table) = Inr (DataFrame [zero_games_row])"
  by (simp add: build_dataset_def dataset_rows_def ex_bases1 ex_job1)

lemma ex_bases2:
  "bases_of (listdir two_jobs_dir) =
     [(''jobB'', [(''err'', ''jobB.err''), (''out'', ''jobB.out'')]),
      (''jobA'', [(''out'', ''jobA.out''), (''err'', ''jobA.err'')])]"
  by (simp add: two_jobs_dir_def bases_of_def add_file_def endswith_def rsplit_dot_def)

lemma ex_sorted2:
  "sort_key fst
     [(''jobB'', [(''err'', ''jobB.err''), (''out'', ''jobB.out'')]),
      (''jobA'', [(''out'', ''jobA.out''), (''err'', ''jobA.err'')])] =
     [(''jobA'', [(''out'', ''jobA.out''), (''err'', ''jobA.err'')]),
      (''jobB'', [(''err'', ''jobB.err''), (''out'', ''jobB.out'')])]"
  by simp

lemma ex_size2: "getsize two_jobs_dir ''jobB.err'' = Some 17" "getsize two_jobs_dir ''jobA.err'' = Some 0"
  by (simp_all add: two_jobs_dir_def)

lemma ex_parse2: "parse_out_file (read_lines two_jobs_dir) ''jobA.out'' =
    Inr \<lparr>game = Some ''Hex'', variant = Some ''UCB1|Random|Average|Robust'', wins = Some 55,
         games = Some 100, avgMoves = Some (Finite (245 / 10))\<rparr>"
  by (simp add: two_jobs_dir_def parse_out_file_def parse_defs str_defs)

lemma ex_meta2: "parse_meta two_jobs_dir ''jobA.out'' = empty_meta"
  by (simp add: two_jobs_dir_def parse_meta_def META_RE_def isfloatchar_def str_defs)

lemma ex_row2: "make_row ''jobA'' (PStr ''Hex'') (Some ''UCB1|Random|Average|Robust'') 55 100
     (Some (Finite (49 / 2))) empty_meta
     \<lparr>game_name = PStr ''Hex'', props = [(''size'', PInt 11)]\<rparr> = jobA_row"
  by (simp add: make_row_def row_items_def variant_parts_def of_opt_str_def of_opt_float_def
        empty_meta_def jobA_row_def str_defs)

lemma ex_jobA:
  "process_job two_jobs_dir hex_table (''jobA'', [(''out'', ''jobA.out''), (''err'', ''jobA.err'')])
     = Inr (Some jobA_row)"
  by (simp add: process_job_def Let_def ex_size2 ex_parse2 ex_meta2 ex_norm ex_match ex_first ex_row2
        del: normalize_name.simps)

lemma ex_jobB:
  "process_job two_jobs_dir hex_table (''jobB'', [(''err'', ''jobB.err''), (''out'', ''jobB.out'')])
     = Inr None"
  by (rule process_job_skip[where e="''jobB.err''" and sz=17]) (simp_all add: ex_size2)


lemma two_jobs_dataset:
  "build_dataset two_jobs_dir (Some hex_table) = Inr (DataFrame [jobA_row])"
  by (simp add: build_dataset_def dataset_rows_def ex_bases2 ex_sorted2 ex_jobA ex_jobB)

theorem dataset_row_winrate_witness:
  "build_dataset two_jobs_dir (Some hex_table) = Inr (DataFrame [jobA_row])
   \<and> jobA_row \<in> set (records (DataFrame [jobA_row]))
   \<and> cell jobA_row ''wins'' = PInt 55 \<and> cell jobA_row ''games'' = PInt 100
   \<and> cell jobA_row ''winrate'' = PFloat (Finite (55 / 100))
   \<and> (\<exists>w n. cell jobA_row ''wins'' = PInt w \<and> cell jobA_row ''games'' = PInt n \<and> 0 \<le> n
          \<and> cell jobA_row ''winrate'' = PFloat (if n > 0 then Finite (real_of_int w / real_of_int n) else NaN))"
proof -
  have m: "jobA_row \<in> set (records (DataFrame [jobA_row]))"
    by (simp add: DataFrame_def)
  have c: "cell jobA_row ''wins'' = PInt 55" "cell jobA_row ''games'' = PInt 100"
      "cell jobA_row ''winrate'' = PFloat (Finite (55 / 100))"
    by (simp_all add: cell_def jobA_row_def)
  show ?thesis
    using two_jobs_dataset m c dataset_row_winrate[OF two_jobs_dataset m] by simp
qed

text \<open>
  The claim as the specification states it (no row has \<^verbatim>\<open>games = 0\<close>) fails on a
  directory whose only job reports \<^verbatim>\<open>completed=0/10\<close>: the dataset has a row for the job,
  with \<^verbatim>\<open>games = 0\<close> and \<^verbatim>\<open>winrate\<close> NaN.
\<close>

theorem zero_games_row_counterexample:
  "build_dataset zero_games_dir (Some hex_table) = Inr (DataFrame [zero_games_row])
   \<and> records (DataFrame [zero_games_row]) = [zero_games_row]
   \<and> cell zero_games_row ''job_base'' = PStr ''job1''
   \<and> cell zero_games_row ''games'' = PInt 0
   \<and> cell zero_games_row ''winrate'' = PFloat NaN"
  using zero_games_dataset by (simp add: DataFrame_def cell_def zero_games_row_def)

subsection \<open>Facts about the grouping of the result files\<close>

lemma rsplit_dot_ext:
  assumes "CHR ''.'' \<notin> set e"
  shows "rsplit_dot (b @ ''.'' @ e) = (b, e)"
proof -
  have r: "rev (b @ ''.'' @ e) = rev e @ CHR ''.'' # rev b" by simp
  have n: "CHR ''.'' \<notin> set (rev e)" using assms by simp
  show ?thesis
    unfolding rsplit_dot_def r
    using takeWhile_until[OF n, of "rev b"] dropWhile_until[OF n, of "rev b"] by simp
qed

lemma endswith_split: "endswith f p \<Longrightarrow> f = take (length f - length p) f @ p"
  unfolding endswith_def by (metis append_take_drop_id)

lemma endswith_append: "endswith (b @ p) p"
  by (simp add: endswith_def)

lemma add_file_err:
  "add_file (b @ ''.err'') bases =
     AList.update b (AList.update ''err'' (b @ ''.err'')
        (case map_of bases b of Some p \<Rightarrow> p | None \<Rightarrow> [])) bases"
proof -
  have e: "endswith (b @ ''.err'') ''.err''" by (rule endswith_append)
  have r: "rsplit_dot (b @ ''.err'') = (b, ''err'')"
    using rsplit_dot_ext[of "''err''" b] by simp
  show ?thesis unfolding add_file_def Let_def using e r by simp
qed

lemma add_file_out:
  "add_file (b @ ''.out'') bases =
     AList.update b (AList.update ''out'' (b @ ''.out'')
        (case map_of bases b of Some p \<Rightarrow> p | None \<Rightarrow> [])) bases"
proof -
  have e: "endswith (b @ ''.out'') ''.out''" by (rule endswith_append)
  have r: "rsplit_dot (b @ ''.out'') = (b, ''out'')"
    using rsplit_dot_ext[of "''out''" b] by simp
  show ?thesis unfolding add_file_def Let_def using e r by simp
qed

lemma add_file_cases:
  obtains (other) "add_file f bases = bases"
  | (err) b where "f = b @ ''.err''"
  | (out) b where "f = b @ ''.out''"
proof (cases "endswith f ''.out'' \<or> endswith f ''.err''")
  case False
  then have "add_file f bases = bases" by (simp add: add_file_def)
  then show ?thesis by (rule other)
next
  case True
  then show ?thesis using endswith_split err out by blast
qed

lemma add_file_distinct:
  assumes "distinct (map fst bases)"
  shows "distinct (map fst (add_file f bases))"
  using assms by (auto simp: add_file_def Let_def distinct_update)

lemma add_file_keeps_err:
  assumes "map_of bases b = Some parts" and "map_of parts ''err'' = Some (b @ ''.err'')"
  shows "\<exists>parts'. map_of (add_file f bases) b = Some parts' \<and> map_of parts' ''err'' = Some (b @ ''.err'')"
proof (cases f bases rule: add_file_cases)
  case other
  then show ?thesis using assms by simp
next
  case (err b')
  show ?thesis
  proof (cases "b' = b")
    case True
    then show ?thesis using assms err by (simp add: add_file_err update_conv')
  next
    case False
    then show ?thesis using assms err by (simp add: add_file_err update_conv')
  qed
next
  case (out b')
  show ?thesis
  proof (cases "b' = b")
    case True
    then show ?thesis using assms out by (simp add: add_file_out update_conv')
  next
    case False
    then show ?thesis using assms out by (simp add: add_file_out update_conv')
  qed
qed

lemma add_file_sets_err:
  "\<exists>parts'. map_of (add_file (b @ ''.err'') bases) b = Some parts'
       \<and> map_of parts' ''err'' = Some (b @ ''.err'')"
  by (simp add: add_file_err update_conv')

lemma bases_of_snoc: "bases_of (fs @ [f]) = add_file f (bases_of fs)"
  by (simp add: bases_of_def)

lemma bases_of_distinct: "distinct (map fst (bases_of fs))"
proof (induction fs rule: rev_induct)
  case Nil
  show ?case by (simp add: bases_of_def)
next
  case (snoc f fs)
  then show ?case by (simp add: bases_of_snoc add_file_distinct)
qed

lemma bases_of_err:
  assumes "b @ ''.err'' \<in> set fs"
  shows "\<exists>parts. map_of (bases_of fs) b = Some parts \<and> map_of parts ''err'' = Some (b @ ''.err'')"
  using assms
proof (induction fs rule: rev_induct)
  case Nil
  then show ?case by simp
next
  case (snoc f fs)
  show ?case
  proof (cases "b @ ''.err'' \<in> set fs")
    case True
    then obtain parts where "map_of (bases_of fs) b = Some parts"
        "map_of parts ''err'' = Some (b @ ''.err'')"
      using snoc.IH by blast
    then show ?thesis unfolding bases_of_snoc by (rule add_file_keeps_err)
  next
    case False
    then have "f = b @ ''.err''" using snoc.prems by simp
    then show ?thesis unfolding bases_of_snoc using add_file_sets_err by simp
  qed
qed


lemma row_job:
  assumes "build_dataset rd gp = Inr df" and "r \<in> set (records df)"
  shows "\<exists>games_df bp. bp \<in> set (bases_of (listdir rd))
           \<and> process_job rd games_df bp = Inr (Some r) \<and> cell r ''job_base'' = PStr (fst bp)"
proof -
  obtain games_df bp where bp: "bp \<in> set (bases_of (listdir rd))"
      "process_job rd games_df bp = Inr (Some r)"
    using build_dataset_rows[OF assms] by blast
  obtain g vo w n avg m prow where "r = make_row (fst bp) g vo w n avg m prow"
    using process_job_row[OF bp(2)] by blast
  then have "cell r ''job_base'' = PStr (fst bp)"
    by (simp only: make_row_cells(1))
  then show ?thesis using bp by blast
qed

lemma skip_base:
  assumes "base @ ''.err'' \<in> set fs"
    and "bp \<in> set (bases_of fs)"
    and "fst bp = base"
    and "getsize rd (base @ ''.err'') = Some sz"
    and "0 < sz"
  shows "process_job rd games_df bp = Inr None"
proof -
  obtain parts where parts: "map_of (bases_of fs) base = Some parts"
      "map_of parts ''err'' = Some (base @ ''.err'')"
    using bases_of_err[OF assms(1)] by blast
  have "(fst bp, snd bp) \<in> set (bases_of fs)"
    using assms(2) by simp
  then have "map_of (bases_of fs) (fst bp) = Some (snd bp)"
    by (rule map_of_is_SomeI[OF bases_of_distinct])
  then have sp: "snd bp = parts" using assms(3) parts(1) by simp
  have ne: "base @ ''.err'' \<noteq> []" by simp
  show ?thesis
    by (rule process_job_skip[OF _ ne assms(4) assms(5)]) (simp only: sp parts(2))
qed


text \<open>
  Claim C5. For every base name whose error file \<^verbatim>\<open><base>.err\<close> is listed in the results
  directory and has a size greater than zero, no row of the dataset built from the
  directory has that base name as its \<^verbatim>\<open>job_base\<close>.
\<close>

theorem failed_job_absent:
  assumes "build_dataset rd gp = Inr df"
    and "base @ ''.err'' \<in> set (listdir rd)"
    and "getsize rd (base @ ''.err'') = Some sz"
    and "0 < sz"
  shows "\<forall>r\<in>set (records df). cell r ''job_base'' \<noteq> PStr base"
proof (intro ballI notI)
  fix r
  assume r: "r \<in> set (records df)" and c: "cell r ''job_base'' = PStr base"
  obtain games_df bp where bp: "bp \<in> set (bases_of (listdir rd))"
      "process_job rd games_df bp = Inr (Some r)" "cell r ''job_base'' = PStr (fst bp)"
    using row_job[OF assms(1) r] by blast
  have "PStr (fst bp) = PStr base" using bp(3) c by (rule trans[OF sym])
  then have fb: "fst bp = base" by (simp only: pyval.inject)
  have "process_job rd games_df bp = Inr None"
    using assms(2) bp(1) fb assms(3) assms(4) by (rule skip_base)
  then have "Inr None = (Inr (Some r) :: error + (string \<times> pyval) list option)"
    using bp(2) by (rule trans[OF sym])
  then show False by (simp only: sum.inject option.distinct)
qed


theorem failed_job_absent_witness:
  "build_dataset two_jobs_dir (Some hex_table) = Inr (DataFrame [jobA_row])
   \<and> ''jobB'' @ ''.err'' \<in> set (listdir two_jobs_dir)
   \<and> getsize two_jobs_dir (''jobB'' @ ''.err'') = Some 17
   \<and> (0::nat) < 17
   \<and> jobA_row \<in> set (records (DataFrame [jobA_row]))
   \<and> cell jobA_row ''job_base'' \<noteq> PStr ''jobB''
   \<and> map (\<lambda>r. cell r ''job_base'') (records (DataFrame [jobA_row])) = [PStr ''jobA'']"
proof -
  have l: "''jobB'' @ ''.err'' \<in> set (listdir two_jobs_dir)"
    by (simp add: two_jobs_dir_def)
  have s: "getsize two_jobs_dir (''jobB'' @ ''.err'') = Some 17"
    by (simp add: two_jobs_dir_def)
  have z: "(0::nat) < 17" by simp
  have m: "jobA_row \<in> set (records (DataFrame [jobA_row]))"
    by (simp add: DataFrame_def)
  have j: "map (\<lambda>r. cell r ''job_base'') (records (DataFrame [jobA_row])) = [PStr ''jobA'']"
    by (simp add: DataFrame_def cell_def jobA_row_def)
  have n: "cell jobA_row ''job_base'' \<noteq> PStr ''jobB''"
    using failed_job_absent[OF two_jobs_dataset l s z] m by (rule bspec)
  show ?thesis
    by (intro conjI two_jobs_dataset l s z m n j)
qed

subsection \<open>Facts about the feature encoders\<close>

lemma unique_set: "set (unique xs) = set xs"
  by (simp add: unique_def)

lemma unique_distinct: "distinct (unique xs)"
  by (simp add: unique_def)

lemma sort_filter_unique:
  "sort (filter P (unique xs)) = sorted_list_of_set (set (filter P xs))"
proof -
  have d: "distinct (filter P (unique xs))"
    using unique_distinct by (rule distinct_filter)
  have "set (filter P xs) = set (filter P (unique xs))"
    by (simp add: unique_set)
  then have "sorted_list_of_set (set (filter P xs)) = sort (remdups (filter P (unique xs)))"
    by (simp only: sorted_list_of_set_sort_remdups)
  also have "\<dots> = sort (filter P (unique xs))"
    using d by (simp only: distinct_remdups_id)
  finally show ?thesis by (rule sym)
qed

lemma comp_unique_spec: "comp_unique L df c = spec_vocabulary L df c"
  unfolding comp_unique_def spec_vocabulary_def by (rule sort_filter_unique)

lemma comp_names_spec:
  "comp_names L df = (\<lambda>c. map (\<lambda>t. c @ ''='' @ t) (spec_vocabulary L df c))"
  by (rule ext) (simp only: comp_names_def comp_unique_spec)

lemma those_map_case:
  "those (map f xs) = Some ys \<Longrightarrow> ys = map (\<lambda>x. case f x of Some t \<Rightarrow> t | None \<Rightarrow> d) xs"
proof (induction xs arbitrary: ys)
  case Nil
  then show ?case by simp
next
  case (Cons x xs)
  then show ?case by (auto split: option.splits)
qed

lemma build_feature_matrix_names:
  assumes "build_feature_matrix L df = Inr (X, y, names, df')"
  shows "names = num_cols_of (columns df)
           @ concat (map (\<lambda>c. map (\<lambda>t. c @ ''='' @ t) (spec_vocabulary L df c))
                       (filter (\<lambda>c. c \<in> set (columns df)) comp_cols))"
proof -
  have "names = num_cols_of (columns df)
           @ concat (map (comp_names L df) (filter (\<lambda>c. c \<in> set (columns df)) comp_cols))"
    using assms by (auto simp: build_feature_matrix_def Let_def split: option.splits sum.splits)
  then show ?thesis
    by (simp only: comp_names_spec)
qed

lemma prepare_features_names:
  assumes "prepare_features L df = Inr (X, y, names)"
  shows "names = num_cols_of (columns df)
           @ sorted_list_of_set (set (filter (\<lambda>t. t \<noteq> []) (pooled_tokens df)))"
proof -
  obtain tokens where t: "those (map variant_tokens (df_col df ''variant'')) = Some tokens"
    and n: "names = num_cols_of (columns df) @ sort (remdups (filter (\<lambda>tok. tok \<noteq> []) (concat tokens)))"
    using assms
    by (auto simp: prepare_features_def Let_def split: option.splits sum.splits if_splits)
  have "tokens = map (\<lambda>v. case variant_tokens v of Some toks \<Rightarrow> toks | None \<Rightarrow> []) (df_col df ''variant'')"
    using t by (rule those_map_case)
  then have "concat tokens = pooled_tokens df" by (simp only: pooled_tokens_def)
  then show ?thesis using n by (simp only: sorted_list_of_set_sort_remdups)
qed

text \<open>
  Claim C3, as amended. The repository has two training-mode encoders. Whenever the
  tuner's encoder \<^verbatim>\<open>build_feature_matrix\<close> returns, its feature-name list is the
  property-prefixed columns first, followed by one block per variant component column
  the dataset has, with names \<^verbatim>\<open><component>=<value>\<close> over that component's sorted set of
  distinct non-empty observed values; for a dataset with all four component columns this
  is exactly the schema of the specification. Whenever the trainer's encoder
  \<^verbatim>\<open>prepare_features\<close> returns, its list is the property-prefixed columns followed by
  one sorted list of the distinct non-empty tokens of all variant strings together, as
  plain token names without a component.
\<close>

theorem feature_names_layout:
  "(build_feature_matrix L df = Inr (X, y, names, df') \<and> set comp_cols \<subseteq> set (columns df)
      \<longrightarrow> names = spec_feature_names L df)
   \<and> (build_feature_matrix L df = Inr (X, y, names, df')
      \<longrightarrow> names = num_cols_of (columns df)
           @ concat (map (\<lambda>c. map (\<lambda>t. c @ ''='' @ t) (spec_vocabulary L df c))
                       (filter (\<lambda>c. c \<in> set (columns df)) comp_cols)))
   \<and> (prepare_features L df = Inr (X2, y2, names2)
      \<longrightarrow> names2 = num_cols_of (columns df)
           @ sorted_list_of_set (set (filter (\<lambda>t. t \<noteq> []) (pooled_tokens df))))"
proof (intro conjI impI)
  assume a: "build_feature_matrix L df = Inr (X, y, names, df') \<and> set comp_cols \<subseteq> set (columns df)"
  then have f: "filter (\<lambda>c. c \<in> set (columns df)) comp_cols = comp_cols"
    by (auto simp: filter_id_conv)
  show "names = spec_feature_names L df"
    using build_feature_matrix_names[of L df X y names df'] a f
    by (simp add: spec_feature_names_def)
next
  assume "build_feature_matrix L df = Inr (X, y, names, df')"
  then show "names = num_cols_of (columns df)
           @ concat (map (\<lambda>c. map (\<lambda>t. c @ ''='' @ t) (spec_vocabulary L df c))
                       (filter (\<lambda>c. c \<in> set (columns df)) comp_cols))"
    by (rule build_feature_matrix_names)
next
  assume "prepare_features L df = Inr (X2, y2, names2)"
  then show "names2 = num_cols_of (columns df)
           @ sorted_list_of_set (set (filter (\<lambda>t. t \<noteq> []) (pooled_tokens df)))"
    by (rule prepare_features_names)
qed

lemma hex_columns:
  "columns hex_dataset =
     [''job_base'', ''game'', ''variant'', ''variant_select'', ''variant_simulation'',
      ''variant_backprop'', ''variant_finalmove'', ''wins'', ''games'', ''winrate'', ''avgMoves'',
      ''moveTime'', ''gamesPerMatchup'', ''maxMoves'', ''cpus'', ''mem'', ''game_size'']"
  by (simp add: hex_dataset_def DataFrame_def unique_def jobA_row_def)

lemma hex_records: "records hex_dataset = [jobA_row]"
  by (simp add: hex_dataset_def DataFrame_def)

lemma hex_num_cols: "num_cols_of (columns hex_dataset) = [''game_size'']"
  unfolding hex_columns by (simp add: num_cols_of_def startswith_def)

lemma hex_X_num: "X_num_of no_lib hex_dataset [''game_size''] = Some [[Finite 11]]"
  by (simp add: X_num_of_def hex_records cell_def jobA_row_def astype_float_def fillna0_def)

lemma hex_has_cols:
  "''variant'' \<in> set (columns hex_dataset)" "''winrate'' \<in> set (columns hex_dataset)"
  "set comp_cols \<subseteq> set (columns hex_dataset)"
  unfolding hex_columns by (simp_all add: comp_cols_def)

lemma hex_variant: "df_col hex_dataset ''variant'' = [PStr ''UCB1|Random|Average|Robust'']"
  by (simp add: df_col_def hex_records cell_def jobA_row_def)

lemma hex_tokens:
  "variant_tokens (PStr ''UCB1|Random|Average|Robust'') = Some [''UCB1'', ''Random'', ''Average'', ''Robust'']"
  by (simp add: variant_tokens_def split_pipe_ws_def str_defs)

lemma hex_y: "y_of no_lib hex_dataset = Inr [Finite (11 / 20)]"
  using hex_has_cols(2)
  by (simp add: y_of_def df_col_def hex_records cell_def jobA_row_def astype_float_def)

lemma hex_sorted_tokens:
  "sort (remdups [''UCB1'', ''Random'', ''Average'', ''Robust'']) = [''Average'', ''Random'', ''Robust'', ''UCB1'']"
  by simp

lemma hex_prepare_features:
  "prepare_features no_lib hex_dataset =
     Inr ([[Finite 11, Finite 1, Finite 1, Finite 1, Finite 1]], [Finite (11 / 20)],
          [''game_size'', ''Average'', ''Random'', ''Robust'', ''UCB1''])"
  using hex_has_cols(1)
  by (simp add: prepare_features_def Let_def hex_num_cols hex_X_num hex_variant hex_tokens hex_y
        hex_sorted_tokens onehot_def)


lemma hex_comp_tokens:
  "comp_tokens no_lib hex_dataset ''variant_select'' = [''UCB1'']"
  "comp_tokens no_lib hex_dataset ''variant_simulation'' = [''Random'']"
  "comp_tokens no_lib hex_dataset ''variant_backprop'' = [''Average'']"
  "comp_tokens no_lib hex_dataset ''variant_finalmove'' = [''Robust'']"
  by (simp_all add: comp_tokens_def df_col_def hex_records cell_def jobA_row_def astype_str_def)

lemma hex_comp_unique:
  "comp_unique no_lib hex_dataset ''variant_select'' = [''UCB1'']"
  "comp_unique no_lib hex_dataset ''variant_simulation'' = [''Random'']"
  "comp_unique no_lib hex_dataset ''variant_backprop'' = [''Average'']"
  "comp_unique no_lib hex_dataset ''variant_finalmove'' = [''Robust'']"
  by (simp_all add: comp_unique_def hex_comp_tokens unique_def)

lemma hex_comp_names:
  "map (comp_names no_lib hex_dataset) comp_cols =
     [[''variant_select=UCB1''], [''variant_simulation=Random''], [''variant_backprop=Average''],
      [''variant_finalmove=Robust'']]"
  by (simp add: comp_cols_def comp_names_def hex_comp_unique)

lemma hex_comp_matrix:
  "map (comp_matrix no_lib hex_dataset) comp_cols = [[[Finite 1]], [[Finite 1]], [[Finite 1]], [[Finite 1]]]"
  by (simp add: comp_cols_def comp_matrix_def hex_comp_unique hex_comp_tokens onehot_def)

lemma hex_present: "filter (\<lambda>c. c \<in> set (columns hex_dataset)) comp_cols = comp_cols"
  using hex_has_cols(3) by (auto simp: filter_id_conv)

lemma hex_build_feature_matrix:
  "build_feature_matrix no_lib hex_dataset =
     Inr ([[Finite 11, Finite 1, Finite 1, Finite 1, Finite 1]], [Finite (11 / 20)],
          [''game_size'', ''variant_select=UCB1'', ''variant_simulation=Random'',
           ''variant_backprop=Average'', ''variant_finalmove=Robust''],
          hex_dataset)"
  by (simp add: build_feature_matrix_def Let_def hex_num_cols hex_X_num hex_present hex_comp_names
        hex_comp_matrix hex_y hex_records del: map_map)

lemma hex_spec_feature_names:
  "spec_feature_names no_lib hex_dataset =
     [''game_size'', ''variant_select=UCB1'', ''variant_simulation=Random'',
      ''variant_backprop=Average'', ''variant_finalmove=Robust'']"
  by (simp add: spec_feature_names_def hex_num_cols comp_cols_def comp_unique_spec[symmetric]
        hex_comp_unique)

theorem feature_names_layout_witness:
  "build_feature_matrix no_lib hex_dataset =
     Inr ([[Finite 11, Finite 1, Finite 1, Finite 1, Finite 1]], [Finite (11 / 20)],
          [''game_size'', ''variant_select=UCB1'', ''variant_simulation=Random'',
           ''variant_backprop=Average'', ''variant_finalmove=Robust''],
          hex_dataset)
   \<and> set comp_cols \<subseteq> set (columns hex_dataset)
   \<and> [''game_size'', ''variant_select=UCB1'', ''variant_simulation=Random'',
           ''variant_backprop=Average'', ''variant_finalmove=Robust'']
        = spec_feature_names no_lib hex_dataset
   \<and> prepare_features no_lib hex_dataset =
     Inr ([[Finite 11, Finite 1, Finite 1, Finite 1, Finite 1]], [Finite (11 / 20)],
          [''game_size'', ''Average'', ''Random'', ''Robust'', ''UCB1''])
   \<and> [''game_size'', ''Average'', ''Random'', ''Robust'', ''UCB1'']
        = num_cols_of (columns hex_dataset)
          @ sorted_list_of_set (set (filter (\<lambda>t. t \<noteq> []) (pooled_tokens hex_dataset)))"
proof -
  note t = feature_names_layout[of no_lib hex_dataset
      "[[Finite 11, Finite 1, Finite 1, Finite 1, Finite 1]]" "[Finite (11 / 20)]"
      "[''game_size'', ''variant_select=UCB1'', ''variant_simulation=Random'',
           ''variant_backprop=Average'', ''variant_finalmove=Robust'']" hex_dataset
      "[[Finite 11, Finite 1, Finite 1, Finite 1, Finite 1]]" "[Finite (11 / 20)]"
      "[''game_size'', ''Average'', ''Random'', ''Robust'', ''UCB1'']"]
  have a: "[''game_size'', ''variant_select=UCB1'', ''variant_simulation=Random'',
           ''variant_backprop=Average'', ''variant_finalmove=Robust'']
        = spec_feature_names no_lib hex_dataset"
    by (rule t[THEN conjunct1, THEN mp]) (intro conjI hex_build_feature_matrix hex_has_cols(3))
  have b: "[''game_size'', ''Average'', ''Random'', ''Robust'', ''UCB1'']
        = num_cols_of (columns hex_dataset)
          @ sorted_list_of_set (set (filter (\<lambda>t. t \<noteq> []) (pooled_tokens hex_dataset)))"
    by (rule t[THEN conjunct2, THEN conjunct2, THEN mp]) (rule hex_prepare_features)
  show ?thesis
    by (intro conjI hex_build_feature_matrix hex_has_cols(3) a hex_prepare_features b)
qed

text \<open>
  The claim as the specification states it, for the training-mode encoder as such, fails
  for \<^verbatim>\<open>prepare_features\<close>: on the dataset of the end-to-end example it emits plain token
  names in one pooled block, not the four per-component blocks of the specification's
  schema.
\<close>

theorem trainer_encoder_counterexample:
  "prepare_features no_lib hex_dataset =
     Inr ([[Finite 11, Finite 1, Finite 1, Finite 1, Finite 1]], [Finite (11 / 20)],
          [''game_size'', ''Average'', ''Random'', ''Robust'', ''UCB1''])
   \<and> spec_feature_names no_lib hex_dataset =
     [''game_size'', ''variant_select=UCB1'', ''variant_simulation=Random'',
      ''variant_backprop=Average'', ''variant_finalmove=Robust'']
   \<and> [''game_size'', ''Average'', ''Random'', ''Robust'', ''UCB1'']
        \<noteq> [''game_size'', ''variant_select=UCB1'', ''variant_simulation=Random'',
            ''variant_backprop=Average'', ''variant_finalmove=Robust'']"
  using hex_prepare_features hex_spec_feature_names by simp

end
